theory Spec2Isabelle
  imports Main "HOL-Library.Word" "HOL-Library.Monad_Syntax"
begin

section \<open>JavaScript strings and values\<close>

text \<open>
  A JavaScript string is modelled as a \<^typ>\<open>string\<close>. The codec only searches for and
  splits at the ASCII characters \<open>(\<close>, \<open>)\<close> and \<open>,\<close>, and otherwise cuts hex strings at
  fixed offsets, so one \<^typ>\<open>char\<close> stands for one code unit.
\<close>

text \<open>\<open>String.prototype.indexOf\<close> with a one-character needle: \<open>-1\<close> when absent.\<close>

fun indexOf :: "string \<Rightarrow> char \<Rightarrow> int" where
  "indexOf [] c = -1"
| "indexOf (x # xs) c =
     (if x = c then 0 else (let i = indexOf xs c in if i < 0 then -1 else i + 1))"

text \<open>
  \<open>String.prototype.substring(start, end)\<close>: both indices are clamped to the string, and
  they are swapped when \<open>start > end\<close>.
\<close>

definition clampIndex :: "string \<Rightarrow> int \<Rightarrow> nat" where
  "clampIndex s i = (if i < 0 then 0 else min (nat i) (length s))"

definition substring :: "string \<Rightarrow> int \<Rightarrow> int \<Rightarrow> string" where
  "substring s start end' =
     (let a = clampIndex s start; b = clampIndex s end'
      in take (max a b - min a b) (drop (min a b) s))"

text \<open>
  \<open>String.prototype.split\<close> with a one-character separator: the result is never empty,
  and the empty string splits into one empty piece.
\<close>

fun split :: "char \<Rightarrow> string \<Rightarrow> string list" where
  "split c [] = [[]]"
| "split c (x # xs) =
     (if x = c then [] # split c xs
      else (case split c xs of
              [] \<Rightarrow> [[x]]
            | w # ws \<Rightarrow> (x # w) # ws))"

text \<open>
  The JavaScript values the codec handles: what \<open>JSON.parse\<close> returns, what the ABI coder
  accepts and returns (a \<open>BigNumber\<close> for every integer type), and \<open>undefined\<close> for an
  array read out of range. Numbers are restricted to the integers.
\<close>

datatype jsval =
    JUndefined
  | JNull
  | JBool bool
  | JNumber int
  | JString string
  | JBigNumber int
  | JArray "jsval list"
  | JObject "(string \<times> jsval) list"

text \<open>\<open>xs[i]\<close> on a JavaScript array.\<close>

definition at :: "jsval list \<Rightarrow> nat \<Rightarrow> jsval" where
  "at xs i = (if i < length xs then xs ! i else JUndefined)"

section \<open>Hex strings and big numbers (the \<open>ethers\<close> utilities)\<close>

definition isHexChar :: "char \<Rightarrow> bool" where
  "isHexChar c = (c \<in> set ''0123456789abcdefABCDEF'')"

definition isDigit :: "char \<Rightarrow> bool" where
  "isDigit c = (c \<in> set ''0123456789'')"

text \<open>\<open>utils.isHexString\<close>: the pattern \<open>^0x[0-9A-Fa-f]*$\<close>.\<close>

definition isHexString :: "string \<Rightarrow> bool" where
  "isHexString s = (take 2 s = ''0x'' \<and> list_all isHexChar (drop 2 s))"

text \<open>
  \<open>utils.hexDataSlice(data, offset)\<close>: throws on a string that is not hex data (not a hex
  string, or an odd number of digits); otherwise drops \<open>offset\<close> bytes. Slicing beyond the
  end gives the empty data \<open>0x\<close>.
\<close>

definition hexDataSlice :: "string \<Rightarrow> nat \<Rightarrow> string option" where
  "hexDataSlice data offset =
     (if \<not> isHexString data \<or> odd (length data) then None
      else Some (''0x'' @ drop (2 + 2 * offset) data))"

definition hexDigit :: "nat \<Rightarrow> char" where
  "hexDigit d = ''0123456789abcdef'' ! (d mod 16)"

text \<open>The value of a hex digit (either case), and of a digit string, most significant first.\<close>

definition hexDigitValue :: "char \<Rightarrow> nat" where
  "hexDigitValue c =
     (if c \<in> set ''0123456789'' then of_char c - 48
      else if c \<in> set ''abcdef'' then of_char c - 87
      else of_char c - 55)"

definition hexValue :: "string \<Rightarrow> nat" where
  "hexValue s = foldl (\<lambda>acc c. 16 * acc + hexDigitValue c) 0 s"

definition decValue :: "string \<Rightarrow> nat" where
  "decValue s = foldl (\<lambda>acc c. 10 * acc + (of_char c - 48)) 0 s"

text \<open>The digits of a number in the given width (most significant first).\<close>

fun hexPad :: "nat \<Rightarrow> nat \<Rightarrow> string" where
  "hexPad 0 n = []"
| "hexPad (Suc w) n = hexPad w (n div 16) @ [hexDigit n]"

text \<open>The number of hex digits of a positive number (\<open>0\<close> has none).\<close>

function hexLen :: "nat \<Rightarrow> nat" where
  "hexLen n = (if n = 0 then 0 else Suc (hexLen (n div 16)))"
  by pat_completeness auto
termination
  by (relation "measure id") auto

declare hexLen.simps [simp del]

text \<open>
  \<open>BigNumber.prototype.toHexString\<close> of a non-negative number: \<open>0x\<close> and an even number of
  lower-case digits, \<open>0x00\<close> for zero.
\<close>

definition toHexString :: "nat \<Rightarrow> string" where
  "toHexString n =
     (if n = 0 then ''0x00''
      else ''0x'' @ hexPad (if odd (hexLen n) then Suc (hexLen n) else hexLen n) n)"

text \<open>
  \<open>utils.hexZeroPad(value, length)\<close>: throws when the value is not a hex string or is
  longer than \<open>length\<close> bytes; otherwise pads with zero digits on the left.
\<close>

definition hexZeroPad :: "string \<Rightarrow> nat \<Rightarrow> string option" where
  "hexZeroPad v len =
     (if \<not> isHexString v \<or> length v > 2 * len + 2 then None
      else Some (''0x'' @ replicate (2 * len + 2 - length v) (CHR ''0'') @ drop 2 v))"

text \<open>
  \<open>BigNumber.from\<close> on a string: an optional minus sign followed by decimal digits, or by
  \<open>0x\<close> and hex digits; anything else throws.
\<close>

definition BigNumber_from_unsigned :: "string \<Rightarrow> nat option" where
  "BigNumber_from_unsigned s =
     (if take 2 s = ''0x'' \<and> drop 2 s \<noteq> [] \<and> list_all isHexChar (drop 2 s)
        then Some (hexValue (drop 2 s))
      else if s \<noteq> [] \<and> list_all isDigit s then Some (decValue s)
      else None)"

definition BigNumber_from :: "string \<Rightarrow> int option" where
  "BigNumber_from s =
     (case s of
        [] \<Rightarrow> None
      | c # r \<Rightarrow>
          (if c = CHR ''-'' then map_option (\<lambda>n. - int n) (BigNumber_from_unsigned r)
           else map_option int (BigNumber_from_unsigned s)))"

text \<open>
  \<open>BigNumber.from\<close> on the JavaScript number \<open>digits / 2\<close>, where \<open>digits\<close> is a string
  length: a fractional number throws, and so does one beyond the safe integers.
\<close>

definition BigNumber_from_half :: "nat \<Rightarrow> nat option" where
  "BigNumber_from_half digits =
     (if odd digits \<or> digits div 2 \<ge> 9007199254740991 then None else Some (digits div 2))"

text \<open>\<open>BigNumber.prototype.toString\<close>: the decimal digits, with a minus sign when negative.\<close>

definition decDigit :: "nat \<Rightarrow> char" where
  "decDigit d = ''0123456789'' ! (d mod 10)"

function decDigits :: "nat \<Rightarrow> string" where
  "decDigits n = (if n < 10 then [decDigit n] else decDigits (n div 10) @ [decDigit n])"
  by pat_completeness auto
termination
  by (relation "measure id") auto

declare decDigits.simps [simp del]

definition BigNumber_toString :: "int \<Rightarrow> string" where
  "BigNumber_toString i = (if i < 0 then CHR ''-'' # decDigits (nat (- i)) else decDigits (nat i))"

section \<open>External collaborators\<close>

text \<open>
  The library functions the codec calls, as parameters: every theorem below holds for
  whatever these functions compute. A call that throws returns \<open>None\<close>.
  \<^item> \<open>JSON_parse\<close>, \<open>JSON_stringify\<close>: the built-in \<open>JSON\<close> object;
  \<^item> \<open>FunctionFragment_from\<close>: whether \<open>utils.FunctionFragment.from\<close> accepts the signature;
  \<^item> \<open>keccak256\<close>: the 32-byte digest of \<open>utils.keccak256(utils.toUtf8Bytes(s))\<close>;
  \<^item> \<open>abi_encode\<close>, \<open>abi_decode\<close>: \<open>utils.defaultAbiCoder\<close>, on hex strings;
  \<^item> \<open>isAddress\<close>: \<open>utils.isAddress\<close>.
\<close>

record ethers =
  JSON_parse :: "string \<Rightarrow> jsval option"
  JSON_stringify :: "jsval \<Rightarrow> string"
  FunctionFragment_from :: "string \<Rightarrow> bool"
  keccak256 :: "string \<Rightarrow> 256 word"
  abi_encode :: "string list \<Rightarrow> jsval list \<Rightarrow> string option"
  abi_decode :: "string list \<Rightarrow> string \<Rightarrow> jsval list option"
  isAddress :: "string \<Rightarrow> bool"

text \<open>
  The name service behind \<open>providers.Provider\<close>: \<open>None\<close> stands for "no such record" and
  for a failed request alike, since the codec treats both the same way.
\<close>

record provider =
  resolveName :: "string \<Rightarrow> string option"
  lookupAddress :: "string \<Rightarrow> string option"

text \<open>
  Modelled from the spec: \<open>convertToAddressOrThrow\<close> of \<open>./ens-name\<close>, which is not among
  the sources. A well-formed address is returned unchanged; anything else is resolved as
  a name, and the call throws when there is no result.
\<close>

definition convertToAddressOrThrow :: "ethers \<Rightarrow> provider \<Rightarrow> string \<Rightarrow> string option" where
  "convertToAddressOrThrow e p raw = (if isAddress e raw then Some raw else resolveName p raw)"

text \<open>
  Modelled from the spec: \<open>tryConvertToEnsName\<close> of \<open>./ens-name\<close>, which is not among the
  sources. Reverse resolution; on any failure the address is returned unchanged, so the
  call never fails.
\<close>

definition tryConvertToEnsName :: "provider \<Rightarrow> string \<Rightarrow> string" where
  "tryConvertToEnsName p a = (case lookupAddress p a of Some n \<Rightarrow> n | None \<Rightarrow> a)"

text \<open>
  Both take a string. The parameters parsed from JSON and those returned by the ABI coder
  are untyped: resolving a value that is not a string fails, and the reverse lookup of
  such a value falls back to the value itself.
\<close>

definition convertParamToAddressOrThrow :: "ethers \<Rightarrow> provider \<Rightarrow> jsval \<Rightarrow> jsval option" where
  "convertParamToAddressOrThrow e p param =
     (case param of
        JString s \<Rightarrow> map_option JString (convertToAddressOrThrow e p s)
      | _ \<Rightarrow> None)"

definition tryConvertParamToEnsName :: "provider \<Rightarrow> jsval \<Rightarrow> jsval" where
  "tryConvertParamToEnsName p param =
     (case param of
        JString a \<Rightarrow> JString (tryConvertToEnsName p a)
      | _ \<Rightarrow> param)"

section \<open>The data model\<close>

datatype ProposalType = Primary | Secondary

record Api3Agent =
  primary :: string
  secondary :: string

text \<open>\<open>api3Agent[formData.type]\<close>.\<close>

definition agentOf :: "Api3Agent \<Rightarrow> ProposalType \<Rightarrow> string" where
  "agentOf a t = (case t of Primary \<Rightarrow> primary a | Secondary \<Rightarrow> secondary a)"

record NewProposalFormData =
  type :: ProposalType
  title :: string
  description :: string
  targetSignature :: string
  targetAddress :: string
  targetValue :: string
  parameters :: string

record ProposalMetadata =
  targetSignature_m :: string
  title_m :: string
  description_m :: string

text \<open>
  \<open>DecodedEvmScript\<close>: the target address is a string and the value a \<open>BigNumber\<close>; the
  parameters are whatever \<open>stringifyBigNumbersRecursively\<close> returns.
\<close>

record DecodedEvmScript =
  targetAddress_d :: string
  value_d :: int
  parameters_d :: "jsval list"

record Proposal =
  type_p :: ProposalType
  metadata_p :: ProposalMetadata
  decodedEvmScript_p :: "DecodedEvmScript option"
  script_p :: string

datatype field = Parameters | TargetSignature | TargetValue | TargetAddress | Generic

datatype EncodedEvmScriptError = EncodedEvmScriptError field string

section \<open>The codec\<close>

text \<open>
  \<open>encodeFunctionSignature\<close>: \<open>hexDataSlice(keccak256(...), 0, 4)\<close>, the first four bytes of
  the digest. The digest is 32 bytes of well-formed hex data, so the slice cannot throw.
\<close>

definition hexlify32 :: "256 word \<Rightarrow> string" where
  "hexlify32 w = ''0x'' @ hexPad 64 (unat w)"

definition encodeFunctionSignature :: "ethers \<Rightarrow> string \<Rightarrow> string" where
  "encodeFunctionSignature e functionFragment =
     ''0x'' @ take 8 (drop 2 (hexlify32 (keccak256 e functionFragment)))"

definition encodedExecuteSignature :: "ethers \<Rightarrow> string" where
  "encodedExecuteSignature e = encodeFunctionSignature e ''execute(address,uint256,bytes)''"

text \<open>\<open>stringifyBigNumbersRecursively\<close>.\<close>

fun stringifyBigNumbersRecursively :: "jsval \<Rightarrow> jsval" where
  "stringifyBigNumbersRecursively (JBigNumber n) = JString (BigNumber_toString n)"
| "stringifyBigNumbersRecursively (JArray vs) = JArray (map stringifyBigNumbersRecursively vs)"
| "stringifyBigNumbersRecursively v = v"

text \<open>
  The parameter types the encoder reads from the signature: what stands between the first
  \<open>(\<close> and the first \<open>)\<close>, split at commas, without the empty pieces.
\<close>

definition parameterTypes_encode :: "string \<Rightarrow> string list" where
  "parameterTypes_encode sig =
     filter (\<lambda>s. length s > 0)
       (split (CHR '','')
         (substring sig (indexOf sig (CHR ''('') + 1) (indexOf sig (CHR '')''))))"

text \<open>The parameter types the decoder reads from the signature: the same, unfiltered.\<close>

definition parameterTypes_decode :: "string \<Rightarrow> string list" where
  "parameterTypes_decode sig =
     split (CHR '','')
       (substring sig (indexOf sig (CHR ''('') + 1) (indexOf sig (CHR '')'')))"

subsection \<open>The steps of \<open>goEncodeEvmScript\<close>\<close>

definition goJsonParams :: "ethers \<Rightarrow> NewProposalFormData \<Rightarrow> jsval list option" where
  "goJsonParams e formData =
     (case JSON_parse e (parameters formData) of
        Some (JArray json) \<Rightarrow> Some json
      | _ \<Rightarrow> None)"

definition goTargetSignature :: "ethers \<Rightarrow> NewProposalFormData \<Rightarrow> bool" where
  "goTargetSignature e formData = FunctionFragment_from e (targetSignature formData)"

definition goExtractParameters :: "string \<Rightarrow> jsval list \<Rightarrow> string list option" where
  "goExtractParameters sig targetParameters =
     (let parameterTypes = parameterTypes_encode sig
      in if length parameterTypes \<noteq> length targetParameters then None
         else Some parameterTypes)"

text \<open>
  The address parameters are resolved, the others passed on as they are; one failed
  resolution fails the whole \<open>Promise.all\<close>.
\<close>

definition resolveParameters ::
  "ethers \<Rightarrow> provider \<Rightarrow> string list \<Rightarrow> jsval list \<Rightarrow> jsval list option" where
  "resolveParameters e p parameterTypes targetParameters =
     those (map (\<lambda>i. let param = at targetParameters i
                     in if parameterTypes ! i \<noteq> ''address'' then Some param
                        else convertParamToAddressOrThrow e p param)
                [0 ..< length parameterTypes])"

definition goEncodeParameters ::
  "ethers \<Rightarrow> provider \<Rightarrow> string list \<Rightarrow> jsval list \<Rightarrow> string option" where
  "goEncodeParameters e p parameterTypes targetParameters =
     do {
       params \<leftarrow> resolveParameters e p parameterTypes targetParameters;
       abi_encode e parameterTypes params
     }"

definition goTargetAddress :: "ethers \<Rightarrow> provider \<Rightarrow> NewProposalFormData \<Rightarrow> string option" where
  "goTargetAddress e p formData = convertToAddressOrThrow e p (targetAddress formData)"

definition goValue :: "NewProposalFormData \<Rightarrow> int option" where
  "goValue formData =
     (case BigNumber_from (targetValue formData) of
        None \<Rightarrow> None
      | Some parsed \<Rightarrow> if parsed < 0 then None else Some parsed)"

text \<open>The call data of \<open>execute\<close>, with its \<open>0x\<close> prefix.\<close>

definition callData :: "ethers \<Rightarrow> string \<Rightarrow> string \<Rightarrow> int \<Rightarrow> string \<Rightarrow> string option" where
  "callData e sig targetAddress' targetValue' encodedTargetParameters =
     map_option (\<lambda>encoded. encodedExecuteSignature e @ drop 2 encoded)
       (abi_encode e [''address'', ''uint256'', ''bytes'']
          [JString targetAddress', JBigNumber targetValue',
           JString (encodeFunctionSignature e sig @ drop 2 encodedTargetParameters)])"

definition callDataLengthInBytes :: "string \<Rightarrow> string option" where
  "callDataLengthInBytes cd =
     do {
       n \<leftarrow> BigNumber_from_half (length (drop 2 cd));
       hexZeroPad (toHexString n) 4
     }"

definition goBuildEvmScript ::
  "ethers \<Rightarrow> NewProposalFormData \<Rightarrow> Api3Agent \<Rightarrow> string \<Rightarrow> int \<Rightarrow> string \<Rightarrow> string option" where
  "goBuildEvmScript e formData api3Agent targetAddress' targetValue' encodedTargetParameters =
     do {
       cd \<leftarrow> callData e (targetSignature formData) targetAddress' targetValue'
               encodedTargetParameters;
       len \<leftarrow> callDataLengthInBytes cd;
       Some (''0x00000001'' @ drop 2 (agentOf api3Agent (type formData)) @ drop 2 len @ drop 2 cd)
     }"

definition goEncodeEvmScript ::
  "ethers \<Rightarrow> provider \<Rightarrow> NewProposalFormData \<Rightarrow> Api3Agent
     \<Rightarrow> EncodedEvmScriptError + string" where
  "goEncodeEvmScript e p formData api3Agent =
     (case goJsonParams e formData of
        None \<Rightarrow> Inl (EncodedEvmScriptError Parameters
                      ''Make sure parameters is a valid JSON array'')
      | Some targetParameters \<Rightarrow>
     if \<not> goTargetSignature e formData
       then Inl (EncodedEvmScriptError TargetSignature
                   ''Please specify a valid contract signature'')
     else
     (case goExtractParameters (targetSignature formData) targetParameters of
        None \<Rightarrow> Inl (EncodedEvmScriptError Parameters
                      ''Please specify the correct number of function arguments'')
      | Some parameterTypes \<Rightarrow>
     (case goEncodeParameters e p parameterTypes targetParameters of
        None \<Rightarrow> Inl (EncodedEvmScriptError Parameters
                      ''Ensure parameters match target contract signature'')
      | Some encodedTargetParameters \<Rightarrow>
     (case goTargetAddress e p formData of
        None \<Rightarrow> Inl (EncodedEvmScriptError TargetAddress
                      ''Please specify a valid account address'')
      | Some targetAddress' \<Rightarrow>
     (case goValue formData of
        None \<Rightarrow> Inl (EncodedEvmScriptError TargetValue
                      ''Please enter a valid amount in Wei'')
      | Some targetValue' \<Rightarrow>
     (case goBuildEvmScript e formData api3Agent targetAddress' targetValue'
             encodedTargetParameters of
        None \<Rightarrow> Inl (EncodedEvmScriptError Generic
                      ''Unable to encode the EVM script. Please check that all form fields are correct'')
      | Some evmScript \<Rightarrow> Inr evmScript))))))"

subsection \<open>Exceptions\<close>

text \<open>
  The control flow of \<open>goEncodeEvmScript\<close> with the exceptions of JavaScript explicit. A
  computation is an option, \<open>None\<close> when it throws, and a throw passes through every later
  statement. Each step above is the callback handed to \<open>goSync\<close> or \<open>go\<close>, which run it
  and catch what it throws: they return a success carrying the data, or a failure, and do
  not throw.
\<close>

datatype 'a GoResult = GoSuccess 'a | GoFailure

definition goSync :: "'a option \<Rightarrow> 'a GoResult option" where
  "goSync fn = Some (case fn of Some data \<Rightarrow> GoSuccess data | None \<Rightarrow> GoFailure)"

definition go :: "'a option \<Rightarrow> 'a GoResult option" where
  "go fn = Some (case fn of Some data \<Rightarrow> GoSuccess data | None \<Rightarrow> GoFailure)"

text \<open>What the call of \<open>goEncodeEvmScript\<close> completes with: \<open>None\<close> if an exception escapes.\<close>

definition goEncodeEvmScript_completion ::
  "ethers \<Rightarrow> provider \<Rightarrow> NewProposalFormData \<Rightarrow> Api3Agent
     \<Rightarrow> (EncodedEvmScriptError + string) option" where
  "goEncodeEvmScript_completion e p formData api3Agent =
     do {
       goJsonParams' \<leftarrow> goSync (goJsonParams e formData);
       (case goJsonParams' of
          GoFailure \<Rightarrow>
            Some (Inl (EncodedEvmScriptError Parameters
                         ''Make sure parameters is a valid JSON array''))
        | GoSuccess targetParameters \<Rightarrow>
     do {
       goTargetSignature' \<leftarrow> goSync (if goTargetSignature e formData then Some () else None);
       (case goTargetSignature' of
          GoFailure \<Rightarrow>
            Some (Inl (EncodedEvmScriptError TargetSignature
                         ''Please specify a valid contract signature''))
        | GoSuccess fragment \<Rightarrow>
     do {
       goExtractParameters' \<leftarrow>
         goSync (goExtractParameters (targetSignature formData) targetParameters);
       (case goExtractParameters' of
          GoFailure \<Rightarrow>
            Some (Inl (EncodedEvmScriptError Parameters
                         ''Please specify the correct number of function arguments''))
        | GoSuccess parameterTypes \<Rightarrow>
     do {
       goEncodeParameters' \<leftarrow> go (goEncodeParameters e p parameterTypes targetParameters);
       (case goEncodeParameters' of
          GoFailure \<Rightarrow>
            Some (Inl (EncodedEvmScriptError Parameters
                         ''Ensure parameters match target contract signature''))
        | GoSuccess encodedTargetParameters \<Rightarrow>
     do {
       goTargetAddress' \<leftarrow> go (goTargetAddress e p formData);
       (case goTargetAddress' of
          GoFailure \<Rightarrow>
            Some (Inl (EncodedEvmScriptError TargetAddress
                         ''Please specify a valid account address''))
        | GoSuccess targetAddress' \<Rightarrow>
     do {
       goValue' \<leftarrow> goSync (goValue formData);
       (case goValue' of
          GoFailure \<Rightarrow>
            Some (Inl (EncodedEvmScriptError TargetValue
                         ''Please enter a valid amount in Wei''))
        | GoSuccess targetValue' \<Rightarrow>
     do {
       goBuildEvmScript' \<leftarrow>
         goSync (goBuildEvmScript e formData api3Agent targetAddress' targetValue'
                   encodedTargetParameters);
       (case goBuildEvmScript' of
          GoFailure \<Rightarrow>
            Some (Inl (EncodedEvmScriptError Generic
              ''Unable to encode the EVM script. Please check that all form fields are correct''))
        | GoSuccess evmScript \<Rightarrow> Some (Inr evmScript))
     }) }) }) }) }) })
     }"

subsection \<open>\<open>decodeEvmScript\<close>\<close>

text \<open>
  What the ABI coder returns for the types \<open>(address, uint256, bytes)\<close>: a string, a
  \<open>BigNumber\<close> and a hex string. No other shape comes out of the coder.
\<close>

fun executionParameters :: "jsval list \<Rightarrow> (string \<times> int \<times> string) option" where
  "executionParameters [JString a, JBigNumber v, JString cd] = Some (a, v, cd)"
| "executionParameters _ = None"

definition lookupParameters :: "provider \<Rightarrow> string list \<Rightarrow> jsval list \<Rightarrow> jsval list" where
  "lookupParameters p parameterTypes decodedParameters =
     map (\<lambda>i. let param = at decodedParameters i
               in if parameterTypes ! i \<noteq> ''address'' then param
                  else tryConvertParamToEnsName p param)
         [0 ..< length parameterTypes]"

definition decodeEvmScript ::
  "ethers \<Rightarrow> provider \<Rightarrow> string \<Rightarrow> ProposalMetadata \<Rightarrow> DecodedEvmScript option" where
  "decodeEvmScript e p script metadata =
     do {
       evmScriptPayload \<leftarrow> hexDataSlice script 4;
       cd \<leftarrow> hexDataSlice evmScriptPayload 24;
       args \<leftarrow> hexDataSlice cd 4;
       decoded \<leftarrow> abi_decode e [''address'', ''uint256'', ''bytes''] args;
       (a, v, targetCallData) \<leftarrow> executionParameters decoded;
       inner \<leftarrow> hexDataSlice targetCallData 4;
       decodedParameters \<leftarrow>
         abi_decode e (parameterTypes_decode (targetSignature_m metadata)) inner;
       Some \<lparr> targetAddress_d = tryConvertToEnsName p a,
              value_d = v,
              parameters_d =
                map stringifyBigNumbersRecursively
                  (lookupParameters p (parameterTypes_decode (targetSignature_m metadata))
                     decodedParameters) \<rparr>
     }"

subsection \<open>\<open>isEvmScriptValid\<close>\<close>

definition reserialize :: "ethers \<Rightarrow> Proposal \<Rightarrow> DecodedEvmScript \<Rightarrow> NewProposalFormData" where
  "reserialize e proposal decodedEvmScript =
     \<lparr> type = type_p proposal,
       title = title_m (metadata_p proposal),
       description = description_m (metadata_p proposal),
       targetSignature = targetSignature_m (metadata_p proposal),
       targetAddress = targetAddress_d decodedEvmScript,
       targetValue = BigNumber_toString (value_d decodedEvmScript),
       parameters = JSON_stringify e (JArray (parameters_d decodedEvmScript)) \<rparr>"

definition isEvmScriptValid :: "ethers \<Rightarrow> provider \<Rightarrow> Api3Agent \<Rightarrow> Proposal \<Rightarrow> bool" where
  "isEvmScriptValid e p api3Agent proposal =
     (case decodedEvmScript_p proposal of
        None \<Rightarrow> False
      | Some decodedEvmScript \<Rightarrow>
          (case goEncodeEvmScript e p (reserialize e proposal decodedEvmScript) api3Agent of
             Inl err \<Rightarrow> False
           | Inr data \<Rightarrow> data = script_p proposal))"

section \<open>A concrete instance of the collaborators\<close>

text \<open>
  A small instance of the library and of the name service, on which the codec can be run.
  It covers the ABI types \<open>address\<close>, \<open>uint256\<close>, \<open>bool\<close> and \<open>bytes\<close>, addresses written
  with decimal digits only (such an address is its own checksummed form), lower-case hex
  data, and JSON arrays of plain strings, numbers, booleans and \<open>null\<close>. Everything else is
  rejected. The digest keeps the four leading bytes, the only ones the codec reads; they
  are the selectors of the signatures listed, and zero for any other string.
\<close>

definition isDecAddress :: "string \<Rightarrow> bool" where
  "isDecAddress s = (take 2 s = ''0x'' \<and> length s = 42 \<and> list_all isDigit (drop 2 s))"

definition isLowerHexData :: "string \<Rightarrow> bool" where
  "isLowerHexData s =
     (take 2 s = ''0x'' \<and> even (length s) \<and> list_all (\<lambda>c. c \<in> set ''0123456789abcdef'') (drop 2 s))"

datatype abiItem = Static string | Dynamic string

definition stub_uint :: "jsval \<Rightarrow> int option" where
  "stub_uint v =
     (case v of
        JString s \<Rightarrow> BigNumber_from s
      | JNumber n \<Rightarrow> Some n
      | JBigNumber n \<Rightarrow> Some n
      | _ \<Rightarrow> None)"

text \<open>The 32-byte words are written as 64 hex digits; a \<open>bytes\<close> value is its length, its
  data and the padding to a whole word.\<close>

definition stub_encode_item :: "string \<Rightarrow> jsval \<Rightarrow> abiItem option" where
  "stub_encode_item ty v =
     (if ty = ''address'' then
        (case v of
           JString s \<Rightarrow>
             if isDecAddress s then Some (Static (replicate 24 (CHR ''0'') @ drop 2 s)) else None
         | _ \<Rightarrow> None)
      else if ty = ''uint256'' then
        (case stub_uint v of
           Some n \<Rightarrow> if 0 \<le> n \<and> n < 2 ^ 256 then Some (Static (hexPad 64 (nat n))) else None
         | None \<Rightarrow> None)
      else if ty = ''bool'' then
        (case v of
           JBool b \<Rightarrow> Some (Static (hexPad 64 (if b then 1 else 0)))
         | _ \<Rightarrow> None)
      else if ty = ''bytes'' then
        (case v of
           JString s \<Rightarrow>
             if isLowerHexData s
             then Some (Dynamic (hexPad 64 ((length s - 2) div 2) @ drop 2 s @
                          replicate ((64 - (length s - 2) mod 64) mod 64) (CHR ''0'')))
             else None
         | _ \<Rightarrow> None)
      else None)"

fun stub_heads :: "nat \<Rightarrow> abiItem list \<Rightarrow> string" where
  "stub_heads off [] = []"
| "stub_heads off (Static w # xs) = w @ stub_heads off xs"
| "stub_heads off (Dynamic t # xs) = hexPad 64 off @ stub_heads (off + length t div 2) xs"

fun stub_tails :: "abiItem list \<Rightarrow> string" where
  "stub_tails [] = []"
| "stub_tails (Static w # xs) = stub_tails xs"
| "stub_tails (Dynamic t # xs) = t @ stub_tails xs"

definition stub_abi_encode :: "string list \<Rightarrow> jsval list \<Rightarrow> string option" where
  "stub_abi_encode tys vs =
     (if length tys \<noteq> length vs then None
      else (case those (map (\<lambda>(ty, v). stub_encode_item ty v) (zip tys vs)) of
              None \<Rightarrow> None
            | Some items \<Rightarrow>
                Some (''0x'' @ stub_heads (32 * length items) items @ stub_tails items)))"

text \<open>The word at a byte offset of the data (given as hex digits).\<close>

definition stub_word :: "string \<Rightarrow> nat \<Rightarrow> string option" where
  "stub_word d off = (if 2 * off + 64 \<le> length d then Some (take 64 (drop (2 * off) d)) else None)"

definition stub_decode_word :: "string \<Rightarrow> string \<Rightarrow> string \<Rightarrow> jsval option" where
  "stub_decode_word ty d w =
     (if ty = ''address'' then
        (if take 24 w = replicate 24 (CHR ''0'') \<and> list_all isDigit (drop 24 w)
         then Some (JString (''0x'' @ drop 24 w)) else None)
      else if ty = ''uint256'' then Some (JBigNumber (int (hexValue w)))
      else if ty = ''bool'' then Some (JBool (hexValue w \<noteq> 0))
      else if ty = ''bytes'' then
        (case stub_word d (hexValue w) of
           None \<Rightarrow> None
         | Some l \<Rightarrow>
             (let start = 2 * hexValue w + 64;
                  len = hexValue l;
                  padded = ((len + 31) div 32) * 32
              in if start + 2 * padded \<le> length d
                 then Some (JString (''0x'' @ take (2 * len) (drop start d)))
                 else None))
      else None)"

text \<open>The empty type name reads nothing and adds no entry: the library's coder for it
  returns \<open>null\<close>, and the library leaves a \<open>null\<close> out of the decoded result.\<close>

fun stub_decode_from :: "string list \<Rightarrow> string \<Rightarrow> nat \<Rightarrow> jsval list option" where
  "stub_decode_from [] d cur = Some []"
| "stub_decode_from (ty # tys) d cur =
     (if ty = [] then stub_decode_from tys d cur
      else (case stub_word d cur of
              None \<Rightarrow> None
            | Some w \<Rightarrow>
                (case stub_decode_word ty d w of
                   None \<Rightarrow> None
                 | Some v \<Rightarrow> map_option (\<lambda>vs. v # vs) (stub_decode_from tys d (cur + 32)))))"

definition stub_abi_decode :: "string list \<Rightarrow> string \<Rightarrow> jsval list option" where
  "stub_abi_decode tys data =
     (if \<not> isLowerHexData data then None else stub_decode_from tys (drop 2 data) 0)"

definition stub_keccak256 :: "string \<Rightarrow> 256 word" where
  "stub_keccak256 s =
     push_bit 224
       (if s = ''execute(address,uint256,bytes)'' then 0xb61d27f6
        else if s = ''transfer(address,uint256)'' then 0xa9059cbb
        else if s = ''setApprovalForAll(address,bool)'' then 0xa22cb465
        else if s = ''pause()'' then 0x8456cb59
        else 0)"

definition isIdentChar :: "char \<Rightarrow> bool" where
  "isIdentChar c =
     (c \<in> set ''abcdefghijklmnopqrstuvwxyzABCDEFGHIJKLMNOPQRSTUVWXYZ0123456789_$'')"

text \<open>Parentheses that match, counted from a nesting depth.\<close>

fun balanced :: "nat \<Rightarrow> string \<Rightarrow> bool" where
  "balanced d [] = (d = 0)"
| "balanced d (c # cs) =
     (if c = CHR ''('' then balanced (Suc d) cs
      else if c = CHR '')'' then d > 0 \<and> balanced (d - 1) cs
      else balanced d cs)"

text \<open>A function name, then a parameter list in parentheses, which may nest (tuple types).\<close>

definition stub_FunctionFragment_from :: "string \<Rightarrow> bool" where
  "stub_FunctionFragment_from s =
     (let name = takeWhile (\<lambda>c. c \<noteq> CHR ''('') s;
          rest = dropWhile (\<lambda>c. c \<noteq> CHR ''('') s
      in name \<noteq> [] \<and> list_all isIdentChar name \<and> \<not> isDigit (hd name) \<and>
         length rest \<ge> 2 \<and> last rest = CHR '')'' \<and> balanced 0 (butlast (tl rest)))"

definition stub_parse_item :: "string \<Rightarrow> jsval option" where
  "stub_parse_item s =
     (if s = ''null'' then Some JNull
      else if s = ''true'' then Some (JBool True)
      else if s = ''false'' then Some (JBool False)
      else if s \<noteq> [] \<and> list_all isDigit s then Some (JNumber (int (decValue s)))
      else if length s \<ge> 2 \<and> hd s = CHR 0x22 \<and> last s = CHR 0x22 \<and>
              list_all (\<lambda>c. c \<noteq> CHR 0x22 \<and> c \<noteq> CHR 0x5C) (butlast (tl s))
        then Some (JString (butlast (tl s)))
      else None)"

definition stub_JSON_parse :: "string \<Rightarrow> jsval option" where
  "stub_JSON_parse s =
     (if s = ''[]'' then Some (JArray [])
      else if length s \<ge> 2 \<and> hd s = CHR ''['' \<and> last s = CHR '']''
        then map_option JArray (those (map stub_parse_item (split (CHR '','') (butlast (tl s)))))
      else stub_parse_item s)"

fun joinWith :: "char \<Rightarrow> string list \<Rightarrow> string" where
  "joinWith c [] = []"
| "joinWith c [x] = x"
| "joinWith c (x # y # ys) = x @ c # joinWith c (y # ys)"

fun stub_stringify_item :: "jsval \<Rightarrow> string" where
  "stub_stringify_item (JBool b) = (if b then ''true'' else ''false'')"
| "stub_stringify_item (JNumber n) = BigNumber_toString n"
| "stub_stringify_item (JString s) = CHR 0x22 # s @ [CHR 0x22]"
| "stub_stringify_item v = ''null''"

definition stub_JSON_stringify :: "jsval \<Rightarrow> string" where
  "stub_JSON_stringify v =
     (case v of
        JArray vs \<Rightarrow> CHR ''['' # joinWith (CHR '','') (map stub_stringify_item vs) @ '']''
      | _ \<Rightarrow> stub_stringify_item v)"

definition stub_ethers :: ethers where
  "stub_ethers =
     \<lparr> JSON_parse = stub_JSON_parse,
       JSON_stringify = stub_JSON_stringify,
       FunctionFragment_from = stub_FunctionFragment_from,
       keccak256 = stub_keccak256,
       abi_encode = stub_abi_encode,
       abi_decode = stub_abi_decode,
       isAddress = isDecAddress \<rparr>"

text \<open>A name service with one name, registered in both directions.\<close>

definition stub_provider :: provider where
  "stub_provider =
     \<lparr> resolveName = (\<lambda>n. if n = ''api3.eth''
                            then Some ''0x3333333333333333333333333333333333333333'' else None),
       lookupAddress = (\<lambda>a. if a = ''0x3333333333333333333333333333333333333333''
                              then Some ''api3.eth'' else None) \<rparr>"

definition stub_agent :: Api3Agent where
  "stub_agent =
     \<lparr> primary = ''0x1111111111111111111111111111111111111111'',
       secondary = ''0x2222222222222222222222222222222222222222'' \<rparr>"

section \<open>Example proposals\<close>

text \<open>
  Proposals for the instance above: a token transfer to a named account, a call of a
  function without arguments, a call with a boolean argument, the transfer through the
  secondary agent, and a call with a tuple parameter. Each script is what the encoder
  returns for the form, as proved below.
\<close>

definition example_transfer :: NewProposalFormData where
  \<open>example_transfer =
     \<lparr> type = Primary, title = ''Grant'', description = ''Pay the grant'',
       targetSignature = ''transfer(address,uint256)'',
       targetAddress = ''0x4444444444444444444444444444444444444444'',
       targetValue = ''0'',
       parameters = ''["api3.eth","1000"]'' \<rparr>\<close>

definition example_transfer_script :: string where
  "example_transfer_script =
     ''0x000000011111111111111111111111111111111111111111000000e4b61d27f60000000000000000000000004444444444444444444444444444444444444444000000000000000000000000000000000000000000000000000000000000000000000000000000000000000000000000000000000000000000000000000000600000000000000000000000000000000000000000000000000000000000000044a9059cbb000000000000000000000000333333333333333333333333333333333333333300000000000000000000000000000000000000000000000000000000000003e800000000000000000000000000000000000000000000000000000000''"

definition example_pause :: NewProposalFormData where
  "example_pause =
     \<lparr> type = Primary, title = ''Pause'', description = ''Pause the token'',
       targetSignature = ''pause()'',
       targetAddress = ''0x4444444444444444444444444444444444444444'',
       targetValue = ''0'',
       parameters = ''[]'' \<rparr>"

definition example_pause_script :: string where
  "example_pause_script =
     ''0x000000011111111111111111111111111111111111111111000000a4b61d27f600000000000000000000000044444444444444444444444444444444444444440000000000000000000000000000000000000000000000000000000000000000000000000000000000000000000000000000000000000000000000000000006000000000000000000000000000000000000000000000000000000000000000048456cb5900000000000000000000000000000000000000000000000000000000''"

definition example_approval :: NewProposalFormData where
  \<open>example_approval =
     \<lparr> type = Primary, title = ''Operator'', description = ''Approve the operator'',
       targetSignature = ''setApprovalForAll(address,bool)'',
       targetAddress = ''0x4444444444444444444444444444444444444444'',
       targetValue = ''0'',
       parameters = ''["0x5555555555555555555555555555555555555555",true]'' \<rparr>\<close>

definition example_approval_script :: string where
  "example_approval_script =
     ''0x000000011111111111111111111111111111111111111111000000e4b61d27f60000000000000000000000004444444444444444444444444444444444444444000000000000000000000000000000000000000000000000000000000000000000000000000000000000000000000000000000000000000000000000000000600000000000000000000000000000000000000000000000000000000000000044a22cb4650000000000000000000000005555555555555555555555555555555555555555000000000000000000000000000000000000000000000000000000000000000100000000000000000000000000000000000000000000000000000000''"

text \<open>The transfer as a proposal of the secondary voting app.\<close>

definition example_secondary :: NewProposalFormData where
  "example_secondary = example_transfer \<lparr> type := Secondary \<rparr>"

definition example_secondary_script :: string where
  "example_secondary_script =
     ''0x000000012222222222222222222222222222222222222222000000e4b61d27f60000000000000000000000004444444444444444444444444444444444444444000000000000000000000000000000000000000000000000000000000000000000000000000000000000000000000000000000000000000000000000000000600000000000000000000000000000000000000000000000000000000000000044a9059cbb000000000000000000000000333333333333333333333333333333333333333300000000000000000000000000000000000000000000000000000000000003e800000000000000000000000000000000000000000000000000000000''"

text \<open>A call whose one parameter is a tuple, with two values.\<close>

definition example_tuple :: NewProposalFormData where
  \<open>example_tuple =
     \<lparr> type = Primary, title = ''Tuple'', description = ''Two values for one tuple'',
       targetSignature = ''f((uint256,address))'',
       targetAddress = ''0x4444444444444444444444444444444444444444'',
       targetValue = ''0'',
       parameters = ''["1","0x5555555555555555555555555555555555555555"]'' \<rparr>\<close>

text \<open>The metadata recorded with a proposal, and the proposal as stored: its script and the
  result of decoding it.\<close>

definition metadataOf :: "NewProposalFormData \<Rightarrow> ProposalMetadata" where
  "metadataOf formData =
     \<lparr> targetSignature_m = targetSignature formData,
       title_m = title formData,
       description_m = description formData \<rparr>"

definition proposalOf ::
  "ethers \<Rightarrow> provider \<Rightarrow> NewProposalFormData \<Rightarrow> string \<Rightarrow> Proposal" where
  "proposalOf e p formData script =
     \<lparr> type_p = type formData,
       metadata_p = metadataOf formData,
       decodedEvmScript_p = decodeEvmScript e p script (metadataOf formData),
       script_p = script \<rparr>"

text \<open>A value without a \<open>BigNumber\<close> in it, at any depth of nested arrays.\<close>

fun noBigNumber :: "jsval \<Rightarrow> bool" where
  "noBigNumber (JBigNumber n) = False"
| "noBigNumber (JArray vs) = list_all noBigNumber vs"
| "noBigNumber v = True"

text \<open>A value that is a string.\<close>

fun isString :: "jsval \<Rightarrow> bool" where
  "isString (JString s) = True"
| "isString v = False"

section \<open>The arity a signature declares\<close>

text \<open>
  The arity a signature declares, read from the signature itself and not from the codec:
  the pieces between the first \<open>(\<close> and the last \<open>)\<close>, separated by the commas that are
  not inside nested parentheses. A tuple type counts as one parameter.
\<close>

fun splitTopLevel :: "nat \<Rightarrow> string \<Rightarrow> string list" where
  "splitTopLevel d [] = [[]]"
| "splitTopLevel d (c # cs) =
     (if c = CHR '','' \<and> d = 0 then [] # splitTopLevel d cs
      else (case splitTopLevel
                   (if c = CHR ''('' then Suc d else if c = CHR '')'' then d - 1 else d) cs of
              [] \<Rightarrow> [[c]]
            | w # ws \<Rightarrow> (c # w) # ws))"

definition declaredParameters :: "string \<Rightarrow> string list" where
  "declaredParameters sig =
     filter (\<lambda>s. s \<noteq> [])
       (splitTopLevel 0
          (rev (tl (dropWhile (\<lambda>c. c \<noteq> CHR '')'')
                      (rev (tl (dropWhile (\<lambda>c. c \<noteq> CHR ''('') sig)))))))"

definition declaredArity :: "string \<Rightarrow> nat" where
  "declaredArity sig = length (declaredParameters sig)"

section \<open>Hex strings: padding and length fields\<close>

lemma length_hexPad [simp]: "length (hexPad w n) = w"
  by (induction w arbitrary: n) auto

lemma hexDigit_isHexChar: "isHexChar (hexDigit d)"
proof -
  have "d mod 16 < 16" by simp
  then have "d mod 16 \<in> {0, 1, 2, 3, 4, 5, 6, 7, 8, 9, 10, 11, 12, 13, 14, 15}"
    by simp presburger
  then show ?thesis
    unfolding hexDigit_def isHexChar_def by (elim insertE emptyE) simp_all
qed

lemma hexPad_isHex: "list_all isHexChar (hexPad w n)"
  by (induction w arbitrary: n) (auto simp: hexDigit_isHexChar)

lemma hexPad_zero: "hexPad w 0 = replicate w (CHR ''0'')"
  by (induction w) (auto simp: hexDigit_def replicate_append_same)

lemma hexPad_add: "n < 16 ^ w \<Longrightarrow> hexPad (k + w) n = replicate k (CHR ''0'') @ hexPad w n"
proof (induction w arbitrary: n)
  case 0
  then show ?case by (simp add: hexPad_zero)
next
  case (Suc w)
  then have "n div 16 < 16 ^ w"
    by (simp add: less_mult_imp_div_less mult.commute)
  then show ?case using Suc.IH [of "n div 16"] by simp
qed

lemma take_hexPad: "take k (hexPad (k + m) n) = hexPad k (n div 16 ^ m)"
proof (induction m arbitrary: n)
  case 0
  then show ?case by simp
next
  case (Suc m)
  have "take k (hexPad (k + Suc m) n) = take k (hexPad (k + m) (n div 16))"
    by simp
  also have "\<dots> = hexPad k (n div 16 div 16 ^ m)"
    by (rule Suc.IH)
  also have "n div 16 div 16 ^ m = n div 16 ^ Suc m"
    by (simp add: div_mult2_eq)
  finally show ?case .
qed

lemma hexLen_bound: "n < 16 ^ hexLen n"
proof (induction n rule: hexLen.induct)
  case (1 n)
  show ?case
  proof (cases "n = 0")
    case True
    then show ?thesis by (simp add: hexLen.simps)
  next
    case False
    then have "n div 16 < 16 ^ hexLen (n div 16)" using 1 by simp
    then have "n < 16 * 16 ^ hexLen (n div 16)"
      by (metis div_less_iff_less_mult mult.commute zero_less_numeral)
    then show ?thesis using False by (subst hexLen.simps) simp
  qed
qed

lemma hexLen_le: "n < 16 ^ w \<Longrightarrow> hexLen n \<le> w"
proof (induction n arbitrary: w rule: hexLen.induct)
  case (1 n)
  show ?case
  proof (cases "n = 0")
    case True
    then show ?thesis by (simp add: hexLen.simps)
  next
    case False
    then obtain w' where w: "w = Suc w'" using 1(2) by (cases w) auto
    then have "n div 16 < 16 ^ w'"
      using 1(2) by (simp add: less_mult_imp_div_less mult.commute)
    then have "hexLen (n div 16) \<le> w'" using 1(1) False by simp
    then show ?thesis using False w by (subst hexLen.simps) simp
  qed
qed

lemma toHexString_eq:
  "\<exists>w. toHexString n = ''0x'' @ hexPad w n \<and> n < 16 ^ w \<and> even w \<and> (w \<le> 8 \<longleftrightarrow> n < 16 ^ 8)"
proof (cases "n = 0")
  case True
  have "toHexString 0 = ''0x'' @ hexPad 2 0"
    by (simp add: toHexString_def hexPad_zero numeral_2_eq_2)
  then show ?thesis using True by (intro exI [of _ 2]) simp
next
  case False
  define w where "w = (if odd (hexLen n) then Suc (hexLen n) else hexLen n)"
  have eq: "toHexString n = ''0x'' @ hexPad w n"
    using False by (simp add: toHexString_def w_def)
  have ge: "hexLen n \<le> w" by (simp add: w_def)
  have "n < 16 ^ hexLen n" by (rule hexLen_bound)
  also have "(16::nat) ^ hexLen n \<le> 16 ^ w" using ge by (simp add: power_increasing)
  finally have lt: "n < 16 ^ w" .
  have ev: "even w" by (simp add: w_def)
  have "w \<le> 8 \<longleftrightarrow> n < 16 ^ 8"
  proof
    assume "w \<le> 8"
    then have "(16::nat) ^ w \<le> 16 ^ 8" by (intro power_increasing) simp_all
    then show "n < 16 ^ 8" using lt by linarith
  next
    assume "n < 16 ^ 8"
    then have "hexLen n \<le> 8" by (rule hexLen_le)
    then show "w \<le> 8" using ev by (auto simp: w_def split: if_splits elim!: oddE)
  qed
  then show ?thesis using eq lt ev by blast
qed

lemma hexZeroPad_toHexString:
  "hexZeroPad (toHexString n) 4 = (if n < 2 ^ 32 then Some (''0x'' @ hexPad 8 n) else None)"
proof -
  obtain w where w: "toHexString n = ''0x'' @ hexPad w n" "n < 16 ^ w" "even w"
    "w \<le> 8 \<longleftrightarrow> n < 16 ^ 8"
    using toHexString_eq by blast
  have hex: "isHexString (''0x'' @ hexPad w n)"
    by (simp add: isHexString_def hexPad_isHex)
  have p: "(16::nat) ^ 8 = 2 ^ 32" by simp
  show ?thesis
  proof (cases "n < 2 ^ 32")
    case True
    then have "w \<le> 8" using w(4) p by simp
    then have "hexPad 8 n = replicate (8 - w) (CHR ''0'') @ hexPad w n"
      using hexPad_add [OF w(2), of "8 - w"] by simp
    then show ?thesis using True \<open>w \<le> 8\<close> hex
      by (simp add: hexZeroPad_def w(1))
  next
    case False
    then have "\<not> w \<le> 8" using w(4) p by simp
    then show ?thesis using False by (simp add: hexZeroPad_def w(1))
  qed
qed

lemma callDataLengthInBytes_eq:
  "callDataLengthInBytes cd =
     (if even (length (drop 2 cd)) \<and> length (drop 2 cd) div 2 < 2 ^ 32
      then Some (''0x'' @ hexPad 8 (length (drop 2 cd) div 2)) else None)"
proof -
  have "(2::nat) ^ 32 \<le> 9007199254740991" by simp
  then have "\<And>k::nat. k < 2 ^ 32 \<Longrightarrow> \<not> 9007199254740991 \<le> k"
    by linarith
  then show ?thesis
    by (auto simp: callDataLengthInBytes_def BigNumber_from_half_def hexZeroPad_toHexString
        simp del: length_drop)
qed

lemma hexDigitValue_hexDigit: "hexDigitValue (hexDigit d) = d mod 16"
proof -
  have "d mod 16 < 16" by simp
  then have "d mod 16 \<in> {0, 1, 2, 3, 4, 5, 6, 7, 8, 9, 10, 11, 12, 13, 14, 15}"
    by simp presburger
  then show ?thesis
    unfolding hexDigit_def hexDigitValue_def by (elim insertE emptyE) simp_all
qed

lemma hexValue_snoc: "hexValue (xs @ [c]) = 16 * hexValue xs + hexDigitValue c"
  by (simp add: hexValue_def)

lemma hexValue_hexPad: "hexValue (hexPad w n) = n mod 16 ^ w"
proof (induction w arbitrary: n)
  case 0
  then show ?case by (simp add: hexValue_def)
next
  case (Suc w)
  have "hexValue (hexPad (Suc w) n) = 16 * (n div 16 mod 16 ^ w) + n mod 16"
    by (simp add: hexValue_snoc hexDigitValue_hexDigit Suc.IH)
  also have "\<dots> = n mod 16 ^ Suc w"
    by (simp add: mod_mult2_eq)
  finally show ?case .
qed

section \<open>Decimal strings\<close>

lemma decDigit_isDigit: "isDigit (decDigit d)"
proof -
  have "d mod 10 < 10" by simp
  then have "d mod 10 \<in> {0, 1, 2, 3, 4, 5, 6, 7, 8, 9}"
    by simp presburger
  then show ?thesis
    unfolding decDigit_def isDigit_def by (elim insertE emptyE) simp_all
qed

lemma decDigit_value: "of_char (decDigit d) - 48 = d mod 10"
proof -
  have "d mod 10 < 10" by simp
  then have "d mod 10 \<in> {0, 1, 2, 3, 4, 5, 6, 7, 8, 9}"
    by simp presburger
  then show ?thesis
    unfolding decDigit_def by (elim insertE emptyE) simp_all
qed

lemma decDigits_isDigit: "list_all isDigit (decDigits n)"
  by (induction n rule: decDigits.induct) (subst decDigits.simps, simp add: decDigit_isDigit)

lemma decDigits_not_Nil: "decDigits n \<noteq> []"
  by (subst decDigits.simps) simp

lemma decValue_snoc: "decValue (xs @ [c]) = 10 * decValue xs + (of_char c - 48)"
  by (simp add: decValue_def)

lemma decValue_decDigits: "decValue (decDigits n) = n"
proof (induction n rule: decDigits.induct)
  case (1 n)
  show ?case
  proof (cases "n < 10")
    case True
    then have "decValue (decDigits n) = n mod 10"
      by (subst decDigits.simps) (simp add: decValue_def decDigit_value)
    then show ?thesis using True by simp
  next
    case False
    then have "decValue (decDigits n) = 10 * (n div 10) + n mod 10"
      using 1 by (subst decDigits.simps) (simp add: decValue_snoc decDigit_value)
    then show ?thesis by simp
  qed
qed

lemma isDigit_chars: "isDigit c \<Longrightarrow> c \<noteq> CHR ''-'' \<and> c \<noteq> CHR ''x''"
  by (auto simp: isDigit_def)

lemma BigNumber_from_unsigned_decDigits: "BigNumber_from_unsigned (decDigits n) = Some n"
proof -
  have digits: "list_all isDigit (decDigits n)" by (rule decDigits_isDigit)
  have "take 2 (decDigits n) \<noteq> ''0x''"
  proof
    assume "take 2 (decDigits n) = ''0x''"
    then have "CHR ''x'' \<in> set (take 2 (decDigits n))" by simp
    then have "CHR ''x'' \<in> set (decDigits n)" by (rule in_set_takeD)
    then show False using digits isDigit_chars by (auto simp: list_all_iff)
  qed
  then show ?thesis
    using digits by (simp add: BigNumber_from_unsigned_def decDigits_not_Nil decValue_decDigits)
qed

text \<open>The decimal string of a number parses back to the number.\<close>

lemma BigNumber_from_toString: "BigNumber_from (BigNumber_toString i) = Some i"
proof (cases "i < 0")
  case True
  then show ?thesis
    by (simp add: BigNumber_from_def BigNumber_toString_def BigNumber_from_unsigned_decDigits)
next
  case False
  obtain c r where cr: "decDigits (nat i) = c # r"
    using decDigits_not_Nil [of "nat i"] by (cases "decDigits (nat i)") auto
  have "isDigit c" using decDigits_isDigit [of "nat i"] by (simp add: cr)
  then have "c \<noteq> CHR ''-''" using isDigit_chars by blast
  moreover have "BigNumber_from_unsigned (c # r) = Some (nat i)"
    using BigNumber_from_unsigned_decDigits [of "nat i"] by (simp add: cr)
  ultimately show ?thesis
    using False by (simp add: BigNumber_from_def BigNumber_toString_def cr)
qed

section \<open>The steps of the encoder\<close>

lemma goJsonParams_Some:
  "goJsonParams e f = Some ps \<longleftrightarrow> JSON_parse e (parameters f) = Some (JArray ps)"
  by (auto simp: goJsonParams_def split: option.splits jsval.splits)

lemma goExtractParameters_Some:
  "goExtractParameters sig ps = Some tys \<longleftrightarrow>
     tys = parameterTypes_encode sig \<and> length tys = length ps"
  by (auto simp: goExtractParameters_def Let_def)

lemma goValue_Some:
  "goValue f = Some v \<longleftrightarrow> BigNumber_from (targetValue f) = Some v \<and> 0 \<le> v"
  by (auto simp: goValue_def split: option.splits)

section \<open>Reading the parameter types of a signature\<close>

lemma split_not_Nil: "split c s \<noteq> []"
  by (induction s) (auto split: list.splits)

lemma parameterTypes_decode_not_Nil: "parameterTypes_decode sig \<noteq> []"
  by (simp add: parameterTypes_decode_def split_not_Nil)

lemma parameterTypes_encode_filter:
  "parameterTypes_encode sig = filter (\<lambda>s. s \<noteq> []) (parameterTypes_decode sig)"
  by (simp add: parameterTypes_encode_def parameterTypes_decode_def)

lemma indexOf_ge: "- 1 \<le> indexOf s c"
  by (induction s) (auto simp: Let_def)

lemma indexOf_append:
  "c \<notin> set xs \<Longrightarrow> indexOf (xs @ c # ys) c = int (length xs)"
  by (induction xs) (auto simp: Let_def)

lemma split_single: "c \<notin> set x \<Longrightarrow> split c x = [x]"
  by (induction x) auto

lemma split_append: "c \<notin> set x \<Longrightarrow> split c (x @ c # rest) = x # split c rest"
  by (induction x) auto

lemma split_joinWith:
  "tys \<noteq> [] \<Longrightarrow> \<forall>t \<in> set tys. c \<notin> set t \<Longrightarrow> split c (joinWith c tys) = tys"
proof (induction c tys rule: joinWith.induct)
  case (1 c)
  then show ?case by simp
next
  case (2 c x)
  then show ?case by (simp add: split_single)
next
  case (3 c x y ys)
  then show ?case by (simp add: split_append)
qed

lemma substring_middle:
  "substring (xs @ ys @ zs) (int (length xs)) (int (length xs + length ys)) = ys"
  by (simp add: substring_def clampIndex_def)

text \<open>
  A signature written as a name, \<open>(\<close>, types separated by commas, \<open>)\<close>, where no type has a
  parenthesis or a comma in it: the text between the parentheses is the joined types.
\<close>

lemma signature_parameters:
  assumes "CHR ''('' \<notin> set name" "CHR '')'' \<notin> set name"
    and "CHR '')'' \<notin> set body"
  shows "substring (name @ ''('' @ body @ '')'' @ rest)
           (indexOf (name @ ''('' @ body @ '')'' @ rest) (CHR ''('') + 1)
           (indexOf (name @ ''('' @ body @ '')'' @ rest) (CHR '')'')) = body"
proof -
  have open': "indexOf (name @ CHR ''('' # body @ CHR '')'' # rest) (CHR ''('') = int (length name)"
    using indexOf_append [OF assms(1), of "body @ CHR '')'' # rest"] by simp
  have "CHR '')'' \<notin> set (name @ CHR ''('' # body)" using assms by simp
  from indexOf_append [OF this, of rest]
  have close: "indexOf (name @ CHR ''('' # body @ CHR '')'' # rest) (CHR '')'') =
      int (length name + 1 + length body)"
    by simp
  have "substring ((name @ ''('') @ body @ ('')'' @ rest))
          (int (length (name @ ''(''))) (int (length (name @ ''('') + length body)) = body"
    by (rule substring_middle)
  then show ?thesis
    by (simp add: open' close add.commute)
qed

lemma joinWith_notin:
  "\<forall>t \<in> set tys. c \<notin> set t \<Longrightarrow> c \<noteq> sep \<Longrightarrow> c \<notin> set (joinWith sep tys)"
  by (induction sep tys rule: joinWith.induct) auto

text \<open>
  For such a signature with at least one type the encoder and the decoder read the
  declared types. Without a type the encoder reads none and the decoder reads the empty
  type name.
\<close>

lemma parameterTypes_flat:
  assumes "CHR ''('' \<notin> set name" "CHR '')'' \<notin> set name"
    and "\<forall>t \<in> set tys. t \<noteq> [] \<and> CHR '','' \<notin> set t \<and> CHR '')'' \<notin> set t"
  shows "parameterTypes_encode (name @ ''('' @ joinWith (CHR '','') tys @ '')'' @ rest) = tys"
    and "tys \<noteq> [] \<Longrightarrow>
         parameterTypes_decode (name @ ''('' @ joinWith (CHR '','') tys @ '')'' @ rest) = tys"
    and "tys = [] \<Longrightarrow>
         parameterTypes_decode (name @ ''('' @ joinWith (CHR '','') tys @ '')'' @ rest) = [[]]"
proof -
  let ?body = "joinWith (CHR '','') tys"
  have "CHR '')'' \<notin> set ?body"
    using assms(3) by (intro joinWith_notin) auto
  from signature_parameters [OF assms(1,2) this, of rest]
  have dec: "parameterTypes_decode (name @ ''('' @ ?body @ '')'' @ rest) = split (CHR '','') ?body"
    by (simp add: parameterTypes_decode_def)
  show 2: "parameterTypes_decode (name @ ''('' @ ?body @ '')'' @ rest) = tys" if "tys \<noteq> []"
    unfolding dec using that assms(3) by (simp add: split_joinWith)
  show 3: "parameterTypes_decode (name @ ''('' @ ?body @ '')'' @ rest) = [[]]" if "tys = []"
    unfolding dec using that by simp
  have "filter (\<lambda>s. s \<noteq> []) tys = tys"
    using assms(3) by (simp add: filter_id_conv)
  then show "parameterTypes_encode (name @ ''('' @ ?body @ '')'' @ rest) = tys"
    unfolding parameterTypes_encode_filter using 2 3 by (cases "tys = []") auto
qed

section \<open>Slicing a script\<close>

lemma list_all_drop: "list_all P xs \<Longrightarrow> list_all P (drop n xs)"
  by (simp add: list_all_iff) (meson in_set_dropD)

lemma isHexString_slice:
  assumes "isHexString d"
  shows "isHexString (''0x'' @ drop (2 + n) d)"
proof -
  have "list_all isHexChar (drop 2 d)" using assms by (simp add: isHexString_def)
  then have "list_all isHexChar (drop n (drop 2 d))" by (rule list_all_drop)
  then show ?thesis by (simp add: isHexString_def add.commute)
qed

lemma hexDataSlice_eq:
  "hexDataSlice d k =
     (if isHexString d \<and> even (length d) then Some (''0x'' @ drop (2 + 2 * k) d) else None)"
  by (simp add: hexDataSlice_def)

text \<open>The three slices of the decoder: the call arguments start 32 bytes into the script.\<close>

lemma script_slices:
  "hexDataSlice script 4 \<bind> (\<lambda>evmScriptPayload. hexDataSlice evmScriptPayload 24 \<bind>
     (\<lambda>cd. hexDataSlice cd 4)) =
   (if isHexString script \<and> even (length script) then Some (''0x'' @ drop 66 script) else None)"
proof (cases "isHexString script \<and> even (length script)")
  case False
  then show ?thesis by (auto simp: hexDataSlice_eq)
next
  case True
  have 1: "hexDataSlice script 4 = Some (''0x'' @ drop 10 script)"
    using True by (simp add: hexDataSlice_eq)
  have h1: "isHexString (''0x'' @ drop 10 script)"
    using isHexString_slice [of script 8] True by simp
  have e1: "even (length (''0x'' @ drop 10 script))" using True by simp
  have 2: "hexDataSlice (''0x'' @ drop 10 script) 24 = Some (''0x'' @ drop 58 script)"
    using h1 e1 by (simp add: hexDataSlice_eq)
  have h2: "isHexString (''0x'' @ drop 58 script)"
    using isHexString_slice [of script 56] True by simp
  have e2: "even (length (''0x'' @ drop 58 script))" using True by simp
  have 3: "hexDataSlice (''0x'' @ drop 58 script) 4 = Some (''0x'' @ drop 66 script)"
    using h2 e2 by (simp add: hexDataSlice_eq)
  show ?thesis using True 1 2 3 by simp
qed

lemma decodeEvmScript_eq:
  "decodeEvmScript e p script metadata =
     (if isHexString script \<and> even (length script) then
        do {
          decoded \<leftarrow> abi_decode e [''address'', ''uint256'', ''bytes''] (''0x'' @ drop 66 script);
          (a, v, targetCallData) \<leftarrow> executionParameters decoded;
          inner \<leftarrow> hexDataSlice targetCallData 4;
          decodedParameters \<leftarrow>
            abi_decode e (parameterTypes_decode (targetSignature_m metadata)) inner;
          Some \<lparr> targetAddress_d = tryConvertToEnsName p a,
                 value_d = v,
                 parameters_d =
                   map stringifyBigNumbersRecursively
                     (lookupParameters p (parameterTypes_decode (targetSignature_m metadata))
                        decodedParameters) \<rparr>
        }
      else None)"
proof -
  have "decodeEvmScript e p script metadata =
      (hexDataSlice script 4 \<bind> (\<lambda>evmScriptPayload. hexDataSlice evmScriptPayload 24 \<bind>
         (\<lambda>cd. hexDataSlice cd 4))) \<bind>
      (\<lambda>args. do {
          decoded \<leftarrow> abi_decode e [''address'', ''uint256'', ''bytes''] args;
          (a, v, targetCallData) \<leftarrow> executionParameters decoded;
          inner \<leftarrow> hexDataSlice targetCallData 4;
          decodedParameters \<leftarrow>
            abi_decode e (parameterTypes_decode (targetSignature_m metadata)) inner;
          Some \<lparr> targetAddress_d = tryConvertToEnsName p a,
                 value_d = v,
                 parameters_d =
                   map stringifyBigNumbersRecursively
                     (lookupParameters p (parameterTypes_decode (targetSignature_m metadata))
                        decodedParameters) \<rparr>
        })"
    unfolding decodeEvmScript_def by (simp only: Option.bind_assoc)
  then show ?thesis
    by (simp only: script_slices) simp
qed

section \<open>Running the codec on the examples\<close>

lemma hexPad_numeral: "hexPad (numeral k) n = hexPad (pred_numeral k) (n div 16) @ [hexDigit n]"
  by (metis hexPad.simps(2) numeral_eq_Suc)

lemma replicate_numeral: "replicate (numeral k) x = x # replicate (pred_numeral k) x"
  by (metis replicate_Suc numeral_eq_Suc)

lemma stub_ethers_fields [simp]:
  "JSON_parse stub_ethers = stub_JSON_parse"
  "JSON_stringify stub_ethers = stub_JSON_stringify"
  "FunctionFragment_from stub_ethers = stub_FunctionFragment_from"
  "keccak256 stub_ethers = stub_keccak256"
  "abi_encode stub_ethers = stub_abi_encode"
  "abi_decode stub_ethers = stub_abi_decode"
  "isAddress stub_ethers = isDecAddress"
  by (simp_all add: stub_ethers_def)

lemmas stub_encode_defs =
  stub_abi_encode_def stub_encode_item_def isDecAddress_def isLowerHexData_def isDigit_def
  stub_uint_def BigNumber_from_def BigNumber_from_unsigned_def decValue_def
  hexPad_numeral hexDigit_def replicate_numeral

lemmas stub_decode_defs =
  stub_abi_decode_def stub_word_def stub_decode_word_def isLowerHexData_def isDigit_def
  hexValue_def hexDigitValue_def replicate_numeral Let_def

lemma stub_selectors:
  "encodedExecuteSignature stub_ethers = ''0xb61d27f6''"
  "encodeFunctionSignature stub_ethers ''transfer(address,uint256)'' = ''0xa9059cbb''"
  "encodeFunctionSignature stub_ethers ''setApprovalForAll(address,bool)'' = ''0xa22cb465''"
  "encodeFunctionSignature stub_ethers ''pause()'' = ''0x8456cb59''"
  by (simp_all add: encodedExecuteSignature_def encodeFunctionSignature_def stub_keccak256_def
      hexlify32_def hexPad_numeral hexDigit_def)

lemma stub_signatures:
  "stub_FunctionFragment_from ''transfer(address,uint256)''"
  "stub_FunctionFragment_from ''setApprovalForAll(address,bool)''"
  "stub_FunctionFragment_from ''pause()''"
  "stub_FunctionFragment_from ''f((uint256,address))''"
  by (simp_all add: stub_FunctionFragment_from_def isIdentChar_def isDigit_def)

lemma example_parameterTypes:
  "parameterTypes_encode ''transfer(address,uint256)'' = [''address'', ''uint256'']"
  "parameterTypes_decode ''transfer(address,uint256)'' = [''address'', ''uint256'']"
  "parameterTypes_encode ''setApprovalForAll(address,bool)'' = [''address'', ''bool'']"
  "parameterTypes_decode ''setApprovalForAll(address,bool)'' = [''address'', ''bool'']"
  "parameterTypes_encode ''pause()'' = []"
  "parameterTypes_decode ''pause()'' = [[]]"
  "parameterTypes_encode ''f((uint256,address))'' = [''(uint256'', ''address'']"
  by (simp_all add: parameterTypes_encode_def parameterTypes_decode_def substring_def
      clampIndex_def)

lemma example_json:
  \<open>stub_JSON_parse ''["api3.eth","1000"]'' = Some (JArray [JString ''api3.eth'', JString ''1000''])\<close>
  \<open>stub_JSON_parse ''["0x5555555555555555555555555555555555555555",true]'' =
     Some (JArray [JString ''0x5555555555555555555555555555555555555555'', JBool True])\<close>
  \<open>stub_JSON_parse ''[]'' = Some (JArray [])\<close>
  \<open>stub_JSON_parse ''[null]'' = Some (JArray [JNull])\<close>
  \<open>stub_JSON_parse ''["1","0x5555555555555555555555555555555555555555"]'' =
     Some (JArray [JString ''1'', JString ''0x5555555555555555555555555555555555555555''])\<close>
  by (simp_all add: stub_JSON_parse_def stub_parse_item_def isDigit_def)

lemma example_target:
  "convertToAddressOrThrow stub_ethers stub_provider ''0x4444444444444444444444444444444444444444'' = Some ''0x4444444444444444444444444444444444444444''"
  by (simp add: convertToAddressOrThrow_def isDecAddress_def isDigit_def)

lemma example_values:
  "BigNumber_from ''0'' = Some 0"
  "BigNumber_from ''-1'' = Some (- 1)"
  by (simp_all add: BigNumber_from_def BigNumber_from_unsigned_def isDigit_def decValue_def)

lemma example_transfer_parameters:
  "goEncodeParameters stub_ethers stub_provider [''address'', ''uint256'']
     [JString ''api3.eth'', JString ''1000''] = Some ''0x000000000000000000000000333333333333333333333333333333333333333300000000000000000000000000000000000000000000000000000000000003e8''"
  by (simp add: goEncodeParameters_def resolveParameters_def at_def
      convertParamToAddressOrThrow_def convertToAddressOrThrow_def stub_provider_def
      stub_encode_defs)

lemma example_approval_parameters:
  "goEncodeParameters stub_ethers stub_provider [''address'', ''bool'']
     [JString ''0x5555555555555555555555555555555555555555'', JBool True] = Some ''0x00000000000000000000000055555555555555555555555555555555555555550000000000000000000000000000000000000000000000000000000000000001''"
  by (simp add: goEncodeParameters_def resolveParameters_def at_def
      convertParamToAddressOrThrow_def convertToAddressOrThrow_def stub_provider_def
      stub_encode_defs)

lemma example_pause_parameters:
  "goEncodeParameters stub_ethers stub_provider [] [] = Some ''0x''"
  by (simp add: goEncodeParameters_def resolveParameters_def stub_abi_encode_def)

lemma example_transfer_build:
  "goBuildEvmScript stub_ethers example_transfer stub_agent ''0x4444444444444444444444444444444444444444'' 0 ''0x000000000000000000000000333333333333333333333333333333333333333300000000000000000000000000000000000000000000000000000000000003e8'' =
     Some example_transfer_script"
  by (simp add: goBuildEvmScript_def callData_def callDataLengthInBytes_eq stub_selectors
      example_transfer_def example_transfer_script_def stub_agent_def agentOf_def
      stub_encode_defs)

lemma example_approval_build:
  "goBuildEvmScript stub_ethers example_approval stub_agent ''0x4444444444444444444444444444444444444444'' 0 ''0x00000000000000000000000055555555555555555555555555555555555555550000000000000000000000000000000000000000000000000000000000000001'' =
     Some example_approval_script"
  by (simp add: goBuildEvmScript_def callData_def callDataLengthInBytes_eq stub_selectors
      example_approval_def example_approval_script_def stub_agent_def agentOf_def
      stub_encode_defs)

lemma example_pause_build:
  "goBuildEvmScript stub_ethers example_pause stub_agent ''0x4444444444444444444444444444444444444444'' 0 ''0x'' =
     Some example_pause_script"
  by (simp add: goBuildEvmScript_def callData_def callDataLengthInBytes_eq stub_selectors
      example_pause_def example_pause_script_def stub_agent_def agentOf_def
      stub_encode_defs)

lemma example_transfer_encode:
  "goEncodeEvmScript stub_ethers stub_provider example_transfer stub_agent =
     Inr example_transfer_script"
proof -
  have "goBuildEvmScript stub_ethers example_transfer stub_agent ''0x4444444444444444444444444444444444444444'' 0 ''0x000000000000000000000000333333333333333333333333333333333333333300000000000000000000000000000000000000000000000000000000000003e8'' =
          Some example_transfer_script"
    by (rule example_transfer_build)
  moreover have "goJsonParams stub_ethers example_transfer =
      Some [JString ''api3.eth'', JString ''1000'']"
    by (simp add: goJsonParams_def example_transfer_def example_json)
  moreover have "goTargetSignature stub_ethers example_transfer"
    by (simp add: goTargetSignature_def example_transfer_def stub_signatures)
  moreover have "targetSignature example_transfer = ''transfer(address,uint256)''"
    by (simp add: example_transfer_def)
  moreover have "goTargetAddress stub_ethers stub_provider example_transfer = Some ''0x4444444444444444444444444444444444444444''"
    by (simp add: goTargetAddress_def example_transfer_def example_target)
  moreover have "goValue example_transfer = Some 0"
    by (simp add: goValue_def example_transfer_def example_values)
  ultimately show ?thesis
    by (simp add: goEncodeEvmScript_def goExtractParameters_def example_parameterTypes
        example_transfer_parameters)
qed

lemma example_approval_encode:
  "goEncodeEvmScript stub_ethers stub_provider example_approval stub_agent =
     Inr example_approval_script"
proof -
  have "goBuildEvmScript stub_ethers example_approval stub_agent ''0x4444444444444444444444444444444444444444'' 0 ''0x00000000000000000000000055555555555555555555555555555555555555550000000000000000000000000000000000000000000000000000000000000001'' =
          Some example_approval_script"
    by (rule example_approval_build)
  moreover have "goJsonParams stub_ethers example_approval =
      Some [JString ''0x5555555555555555555555555555555555555555'', JBool True]"
    by (simp add: goJsonParams_def example_approval_def example_json)
  moreover have "goTargetSignature stub_ethers example_approval"
    by (simp add: goTargetSignature_def example_approval_def stub_signatures)
  moreover have "targetSignature example_approval = ''setApprovalForAll(address,bool)''"
    by (simp add: example_approval_def)
  moreover have "goTargetAddress stub_ethers stub_provider example_approval = Some ''0x4444444444444444444444444444444444444444''"
    by (simp add: goTargetAddress_def example_approval_def example_target)
  moreover have "goValue example_approval = Some 0"
    by (simp add: goValue_def example_approval_def example_values)
  ultimately show ?thesis
    by (simp add: goEncodeEvmScript_def goExtractParameters_def example_parameterTypes
        example_approval_parameters)
qed

lemma example_pause_encode:
  "goEncodeEvmScript stub_ethers stub_provider example_pause stub_agent =
     Inr example_pause_script"
proof -
  have "goBuildEvmScript stub_ethers example_pause stub_agent ''0x4444444444444444444444444444444444444444'' 0 ''0x'' =
          Some example_pause_script"
    by (rule example_pause_build)
  moreover have "goJsonParams stub_ethers example_pause = Some []"
    by (simp add: goJsonParams_def example_pause_def example_json)
  moreover have "goTargetSignature stub_ethers example_pause"
    by (simp add: goTargetSignature_def example_pause_def stub_signatures)
  moreover have "targetSignature example_pause = ''pause()''"
    by (simp add: example_pause_def)
  moreover have "goTargetAddress stub_ethers stub_provider example_pause = Some ''0x4444444444444444444444444444444444444444''"
    by (simp add: goTargetAddress_def example_pause_def example_target)
  moreover have "goValue example_pause = Some 0"
    by (simp add: goValue_def example_pause_def example_values)
  ultimately show ?thesis
    by (simp add: goEncodeEvmScript_def goExtractParameters_def example_parameterTypes
        example_pause_parameters)
qed


lemma example_secondary_build:
  "goBuildEvmScript stub_ethers example_secondary stub_agent ''0x4444444444444444444444444444444444444444'' 0 ''0x000000000000000000000000333333333333333333333333333333333333333300000000000000000000000000000000000000000000000000000000000003e8'' =
     Some example_secondary_script"
  by (simp add: goBuildEvmScript_def callData_def callDataLengthInBytes_eq stub_selectors
      example_secondary_def example_transfer_def example_secondary_script_def stub_agent_def
      agentOf_def stub_encode_defs)

lemma example_secondary_encode:
  "goEncodeEvmScript stub_ethers stub_provider example_secondary stub_agent =
     Inr example_secondary_script"
proof -
  have "goBuildEvmScript stub_ethers example_secondary stub_agent ''0x4444444444444444444444444444444444444444'' 0 ''0x000000000000000000000000333333333333333333333333333333333333333300000000000000000000000000000000000000000000000000000000000003e8'' =
          Some example_secondary_script"
    by (rule example_secondary_build)
  moreover have "goJsonParams stub_ethers example_secondary =
      Some [JString ''api3.eth'', JString ''1000'']"
    by (simp add: goJsonParams_def example_secondary_def example_transfer_def example_json)
  moreover have "goTargetSignature stub_ethers example_secondary"
    by (simp add: goTargetSignature_def example_secondary_def example_transfer_def
        stub_signatures)
  moreover have "targetSignature example_secondary = ''transfer(address,uint256)''"
    by (simp add: example_secondary_def example_transfer_def)
  moreover have "goTargetAddress stub_ethers stub_provider example_secondary = Some ''0x4444444444444444444444444444444444444444''"
    by (simp add: goTargetAddress_def example_secondary_def example_transfer_def example_target)
  moreover have "goValue example_secondary = Some 0"
    by (simp add: goValue_def example_secondary_def example_transfer_def example_values)
  ultimately show ?thesis
    by (simp add: goEncodeEvmScript_def goExtractParameters_def example_parameterTypes
        example_transfer_parameters)
qed

lemma example_tuple_encode:
  "goEncodeEvmScript stub_ethers stub_provider example_tuple stub_agent =
     Inl (EncodedEvmScriptError Parameters ''Ensure parameters match target contract signature'')"
proof -
  have "goJsonParams stub_ethers example_tuple =
      Some [JString ''1'', JString ''0x5555555555555555555555555555555555555555'']"
    by (simp add: goJsonParams_def example_tuple_def example_json)
  moreover have "goTargetSignature stub_ethers example_tuple"
    by (simp add: goTargetSignature_def example_tuple_def stub_signatures)
  moreover have "targetSignature example_tuple = ''f((uint256,address))''"
    by (simp add: example_tuple_def)
  moreover have "goEncodeParameters stub_ethers stub_provider [''(uint256'', ''address'']
      [JString ''1'', JString ''0x5555555555555555555555555555555555555555''] = None"
    by (simp add: goEncodeParameters_def resolveParameters_def at_def
        convertParamToAddressOrThrow_def convertToAddressOrThrow_def stub_encode_defs)
  ultimately show ?thesis
    by (simp add: goEncodeEvmScript_def goExtractParameters_def example_parameterTypes)
qed

lemma example_numbers:
  "BigNumber_toString 1000 = ''1000''"
  "BigNumber_toString 0 = ''0''"
  by (simp_all add: BigNumber_toString_def decDigits.simps decDigit_def)

lemmas decode_defs =
  decodeEvmScript_eq hexDataSlice_eq isHexString_def isHexChar_def stub_decode_defs
  metadataOf_def example_parameterTypes lookupParameters_def at_def
  tryConvertToEnsName_def tryConvertParamToEnsName_def stub_provider_def example_numbers

lemma example_transfer_decode:
  "decodeEvmScript stub_ethers stub_provider example_transfer_script (metadataOf example_transfer) =
     Some \<lparr> targetAddress_d = ''0x4444444444444444444444444444444444444444'', value_d = 0,
            parameters_d = [JString ''api3.eth'', JString ''1000''] \<rparr>"
  by (simp add: example_transfer_script_def example_transfer_def decode_defs)

lemma example_approval_decode:
  "decodeEvmScript stub_ethers stub_provider example_approval_script (metadataOf example_approval) =
     Some \<lparr> targetAddress_d = ''0x4444444444444444444444444444444444444444'', value_d = 0,
            parameters_d = [JString ''0x5555555555555555555555555555555555555555'', JBool True] \<rparr>"
  by (simp add: example_approval_script_def example_approval_def decode_defs)

lemma example_pause_decode:
  "decodeEvmScript stub_ethers stub_provider example_pause_script (metadataOf example_pause) =
     Some \<lparr> targetAddress_d = ''0x4444444444444444444444444444444444444444'', value_d = 0,
            parameters_d = [JUndefined] \<rparr>"
  by (simp add: example_pause_script_def example_pause_def decode_defs)

section \<open>The layout of the script\<close>

lemma encodeFunctionSignature_eq:
  "encodeFunctionSignature e s = ''0x'' @ hexPad 8 (unat (keccak256 e s) div 16 ^ 56)"
proof -
  have "take 8 (hexPad (8 + 56) (unat (keccak256 e s))) =
          hexPad 8 (unat (keccak256 e s) div 16 ^ 56)"
    by (rule take_hexPad)
  then show ?thesis
    by (simp add: encodeFunctionSignature_def hexlify32_def)
qed

lemma goBuildEvmScript_Some:
  assumes "goBuildEvmScript e formData api3Agent a v encodedTargetParameters = Some evmScript"
  shows "\<exists>encoded.
     abi_encode e [''address'', ''uint256'', ''bytes'']
       [JString a, JBigNumber v,
        JString (encodeFunctionSignature e (targetSignature formData) @
                 drop 2 encodedTargetParameters)] = Some encoded \<and>
     even (length (drop 2 encoded)) \<and>
     4 + length (drop 2 encoded) div 2 < 2 ^ 32 \<and>
     evmScript =
       ''0x00000001'' @ drop 2 (agentOf api3Agent (type formData)) @
       hexPad 8 (4 + length (drop 2 encoded) div 2) @
       hexPad 8 (unat (keccak256 e ''execute(address,uint256,bytes)'') div 16 ^ 56) @
       drop 2 encoded"
proof -
  from assms obtain cd len where
    cd: "callData e (targetSignature formData) a v encodedTargetParameters = Some cd" and
    len: "callDataLengthInBytes cd = Some len" and
    script: "evmScript = ''0x00000001'' @ drop 2 (agentOf api3Agent (type formData)) @
               drop 2 len @ drop 2 cd"
    by (auto simp: goBuildEvmScript_def split: Option.bind_splits)
  from cd obtain encoded where
    enc: "abi_encode e [''address'', ''uint256'', ''bytes'']
       [JString a, JBigNumber v,
        JString (encodeFunctionSignature e (targetSignature formData) @
                 drop 2 encodedTargetParameters)] = Some encoded" and
    cd_eq: "cd = encodedExecuteSignature e @ drop 2 encoded"
    by (auto simp: callData_def)
  let ?sel = "hexPad 8 (unat (keccak256 e ''execute(address,uint256,bytes)'') div 16 ^ 56)"
  have cd2: "drop 2 cd = ?sel @ drop 2 encoded"
    by (simp add: cd_eq encodedExecuteSignature_def encodeFunctionSignature_eq)
  define m where "m = length (drop 2 cd)"
  define n where "n = length (drop 2 encoded)"
  have digits: "m = 8 + n"
    unfolding m_def n_def cd2 by simp
  from len have "even m \<and> m div 2 < 2 ^ 32 \<and> len = ''0x'' @ hexPad 8 (m div 2)"
    unfolding callDataLengthInBytes_eq m_def by (simp split: if_splits)
  then have ev: "even m" and lt: "m div 2 < 2 ^ 32" and
    len_eq: "len = ''0x'' @ hexPad 8 (m div 2)"
    by simp_all
  have ev': "even n" using ev digits by simp
  then have half: "m div 2 = 4 + n div 2"
    using digits by (elim evenE) simp
  have "even n \<and> 4 + n div 2 < 2 ^ 32 \<and>
        evmScript = ''0x00000001'' @ drop 2 (agentOf api3Agent (type formData)) @
          hexPad 8 (4 + n div 2) @ ?sel @ drop 2 encoded"
    using ev' lt script cd2 len_eq half by simp
  then have concl: "even (length (drop 2 encoded)) \<and>
        4 + length (drop 2 encoded) div 2 < 2 ^ 32 \<and>
        evmScript = ''0x00000001'' @ drop 2 (agentOf api3Agent (type formData)) @
          hexPad 8 (4 + length (drop 2 encoded) div 2) @ ?sel @ drop 2 encoded"
    unfolding n_def .
  show ?thesis
    using enc concl by (intro exI [of _ encoded] conjI) blast+
qed

lemma goEncodeEvmScript_Inr:
  assumes "goEncodeEvmScript e p formData api3Agent = Inr evmScript"
  shows "\<exists>targetParameters params encodedTargetParameters a v encoded.
     JSON_parse e (parameters formData) = Some (JArray targetParameters) \<and>
     resolveParameters e p (parameterTypes_encode (targetSignature formData)) targetParameters =
       Some params \<and>
     abi_encode e (parameterTypes_encode (targetSignature formData)) params =
       Some encodedTargetParameters \<and>
     convertToAddressOrThrow e p (targetAddress formData) = Some a \<and>
     BigNumber_from (targetValue formData) = Some v \<and> 0 \<le> v \<and>
     abi_encode e [''address'', ''uint256'', ''bytes'']
       [JString a, JBigNumber v,
        JString (encodeFunctionSignature e (targetSignature formData) @
                 drop 2 encodedTargetParameters)] = Some encoded \<and>
     even (length (drop 2 encoded)) \<and>
     4 + length (drop 2 encoded) div 2 < 2 ^ 32 \<and>
     evmScript =
       ''0x00000001'' @ drop 2 (agentOf api3Agent (type formData)) @
       hexPad 8 (4 + length (drop 2 encoded) div 2) @
       hexPad 8 (unat (keccak256 e ''execute(address,uint256,bytes)'') div 16 ^ 56) @
       drop 2 encoded"
proof -
  from assms obtain targetParameters parameterTypes encodedTargetParameters a v where
    json: "goJsonParams e formData = Some targetParameters" and
    types: "goExtractParameters (targetSignature formData) targetParameters = Some parameterTypes" and
    enc: "goEncodeParameters e p parameterTypes targetParameters = Some encodedTargetParameters" and
    addr: "goTargetAddress e p formData = Some a" and
    val: "goValue formData = Some v" and
    build: "goBuildEvmScript e formData api3Agent a v encodedTargetParameters = Some evmScript"
    by (auto simp: goEncodeEvmScript_def split: option.splits if_splits)
  from types have tys: "parameterTypes = parameterTypes_encode (targetSignature formData)"
    by (simp add: goExtractParameters_Some)
  from enc obtain params where
    res: "resolveParameters e p parameterTypes targetParameters = Some params" and
    abi: "abi_encode e parameterTypes params = Some encodedTargetParameters"
    by (auto simp: goEncodeParameters_def split: Option.bind_splits)
  from goBuildEvmScript_Some [OF build] obtain encoded where
    "abi_encode e [''address'', ''uint256'', ''bytes'']
       [JString a, JBigNumber v,
        JString (encodeFunctionSignature e (targetSignature formData) @
                 drop 2 encodedTargetParameters)] = Some encoded \<and>
     even (length (drop 2 encoded)) \<and>
     4 + length (drop 2 encoded) div 2 < 2 ^ 32 \<and>
     evmScript =
       ''0x00000001'' @ drop 2 (agentOf api3Agent (type formData)) @
       hexPad 8 (4 + length (drop 2 encoded) div 2) @
       hexPad 8 (unat (keccak256 e ''execute(address,uint256,bytes)'') div 16 ^ 56) @
       drop 2 encoded"
    by blast
  moreover have "JSON_parse e (parameters formData) = Some (JArray targetParameters)"
    using json by (simp add: goJsonParams_Some)
  moreover have "convertToAddressOrThrow e p (targetAddress formData) = Some a"
    using addr by (simp add: goTargetAddress_def)
  moreover have "BigNumber_from (targetValue formData) = Some v \<and> 0 \<le> v"
    using val by (simp add: goValue_Some)
  ultimately show ?thesis
    using res abi unfolding tys by blast
qed

text \<open>
  Claim C3. A script that \<open>goEncodeEvmScript\<close> returns is, after \<open>0x\<close>, the tag
  \<open>00000001\<close>, the agent address without its \<open>0x\<close>, the number of bytes of the call data
  as eight hex digits (four bytes, most significant first), and the call data: the first
  four bytes of the digest of \<open>execute(address,uint256,bytes)\<close>, then the ABI encoding of
  the resolved target address, the parsed value and the inner call, which is the selector
  of the target signature followed by the ABI encoding of the resolved parameters. The
  agent address is the primary one for a primary proposal and the secondary one for a
  secondary proposal. When it is a 20-byte address, the tag is bytes 0 to 4 of the
  script, the address bytes 4 to 24, the length bytes 24 to 28 and the call data the rest,
  and the length field counts the bytes of the call data.
\<close>

theorem goEncodeEvmScript_layout:
  assumes "goEncodeEvmScript e p formData api3Agent = Inr evmScript"
  shows "\<exists>targetParameters params encodedTargetParameters a v encoded.
     JSON_parse e (parameters formData) = Some (JArray targetParameters) \<and>
     resolveParameters e p (parameterTypes_encode (targetSignature formData)) targetParameters =
       Some params \<and>
     abi_encode e (parameterTypes_encode (targetSignature formData)) params =
       Some encodedTargetParameters \<and>
     convertToAddressOrThrow e p (targetAddress formData) = Some a \<and>
     BigNumber_from (targetValue formData) = Some v \<and> 0 \<le> v \<and>
     abi_encode e [''address'', ''uint256'', ''bytes'']
       [JString a, JBigNumber v,
        JString (encodeFunctionSignature e (targetSignature formData) @
                 drop 2 encodedTargetParameters)] = Some encoded \<and>
     even (length (drop 2 encoded)) \<and>
     hexValue (hexPad 8 (4 + length (drop 2 encoded) div 2)) =
       4 + length (drop 2 encoded) div 2 \<and>
     length (hexPad 8 (unat (keccak256 e ''execute(address,uint256,bytes)'') div 16 ^ 56) @
             drop 2 encoded) = 2 * (4 + length (drop 2 encoded) div 2) \<and>
     evmScript =
       ''0x00000001'' @
       drop 2 (case type formData of
                 Primary \<Rightarrow> primary api3Agent | Secondary \<Rightarrow> secondary api3Agent) @
       hexPad 8 (4 + length (drop 2 encoded) div 2) @
       hexPad 8 (unat (keccak256 e ''execute(address,uint256,bytes)'') div 16 ^ 56) @
       drop 2 encoded \<and>
     (length (case type formData of
                Primary \<Rightarrow> primary api3Agent | Secondary \<Rightarrow> secondary api3Agent) = 42 \<longrightarrow>
        take 10 evmScript = ''0x00000001'' \<and>
        take 40 (drop 10 evmScript) =
          drop 2 (case type formData of
                    Primary \<Rightarrow> primary api3Agent | Secondary \<Rightarrow> secondary api3Agent) \<and>
        take 8 (drop 50 evmScript) = hexPad 8 (4 + length (drop 2 encoded) div 2) \<and>
        drop 58 evmScript =
          hexPad 8 (unat (keccak256 e ''execute(address,uint256,bytes)'') div 16 ^ 56) @
          drop 2 encoded \<and>
        length evmScript = 2 + 2 * (4 + 20 + 4 + (4 + length (drop 2 encoded) div 2)))"
proof -
  let ?agent = "case type formData of
                  Primary \<Rightarrow> primary api3Agent | Secondary \<Rightarrow> secondary api3Agent"
  let ?sel = "hexPad 8 (unat (keccak256 e ''execute(address,uint256,bytes)'') div 16 ^ 56)"
  from goEncodeEvmScript_Inr [OF assms]
  obtain targetParameters params encodedTargetParameters a v encoded where
    steps: "JSON_parse e (parameters formData) = Some (JArray targetParameters)"
      "resolveParameters e p (parameterTypes_encode (targetSignature formData)) targetParameters =
         Some params"
      "abi_encode e (parameterTypes_encode (targetSignature formData)) params =
         Some encodedTargetParameters"
      "convertToAddressOrThrow e p (targetAddress formData) = Some a"
      "BigNumber_from (targetValue formData) = Some v" "0 \<le> v"
      "abi_encode e [''address'', ''uint256'', ''bytes'']
         [JString a, JBigNumber v,
          JString (encodeFunctionSignature e (targetSignature formData) @
                   drop 2 encodedTargetParameters)] = Some encoded" and
    ev: "even (length (drop 2 encoded))" and
    lt: "4 + length (drop 2 encoded) div 2 < 2 ^ 32" and
    script0: "evmScript =
       ''0x00000001'' @ drop 2 (agentOf api3Agent (type formData)) @
       hexPad 8 (4 + length (drop 2 encoded) div 2) @ ?sel @ drop 2 encoded"
    by blast
  define n where "n = 4 + length (drop 2 encoded) div 2"
  define body where "body = drop 2 encoded"
  have agent: "agentOf api3Agent (type formData) = ?agent"
    by (simp add: agentOf_def)
  have script: "evmScript = ''0x00000001'' @ drop 2 ?agent @ hexPad 8 n @ ?sel @ body"
    using script0 unfolding agent n_def body_def .
  have "n < 16 ^ 8" using lt by (simp add: n_def)
  then have digits: "hexValue (hexPad 8 n) = n"
    by (simp only: hexValue_hexPad mod_less)
  have "even (length body)" using ev by (simp only: body_def)
  then have count: "length (?sel @ body) = 2 * n"
    unfolding n_def body_def [symmetric] by (elim evenE) simp
  have positions: "take 10 evmScript = ''0x00000001'' \<and>
      take 40 (drop 10 evmScript) = drop 2 ?agent \<and>
      take 8 (drop 50 evmScript) = hexPad 8 n \<and>
      drop 58 evmScript = ?sel @ body \<and>
      length evmScript = 2 + 2 * (4 + 20 + 4 + n)" if len: "length ?agent = 42"
  proof -
    have a40: "length (drop 2 ?agent) = 40" using len by simp
    have "length (?sel @ body) = 2 * n" by (rule count)
    then have lenB: "length body = 2 * n - 8" by simp
    have n4: "4 \<le> n" by (simp add: n_def)
    show ?thesis
      unfolding script using a40 lenB n4 by simp
  qed
  show ?thesis
    using steps ev digits count script positions
    unfolding n_def body_def
    by (intro exI [of _ targetParameters] exI [of _ params] exI [of _ encodedTargetParameters]
        exI [of _ a] exI [of _ v] exI [of _ encoded]) blast
qed

theorem goEncodeEvmScript_layout_witness:
  "goEncodeEvmScript stub_ethers stub_provider example_transfer stub_agent =
     Inr example_transfer_script \<and>
   take 10 example_transfer_script = ''0x00000001'' \<and>
   take 40 (drop 10 example_transfer_script) = drop 2 (primary stub_agent) \<and>
   goEncodeEvmScript stub_ethers stub_provider example_secondary stub_agent =
     Inr example_secondary_script \<and>
   take 10 example_secondary_script = ''0x00000001'' \<and>
   take 40 (drop 10 example_secondary_script) = drop 2 (secondary stub_agent) \<and>
   primary stub_agent \<noteq> secondary stub_agent"
proof -
  have primary: "type example_transfer = Primary" "length (primary stub_agent) = 42"
    by (simp_all add: example_transfer_def stub_agent_def)
  have secondary: "type example_secondary = Secondary" "length (secondary stub_agent) = 42"
    by (simp_all add: example_secondary_def stub_agent_def)
  from goEncodeEvmScript_layout [OF example_transfer_encode]
  have 1: "take 10 example_transfer_script = ''0x00000001'' \<and>
      take 40 (drop 10 example_transfer_script) = drop 2 (primary stub_agent)"
    unfolding primary ProposalType.case by blast
  from goEncodeEvmScript_layout [OF example_secondary_encode]
  have 2: "take 10 example_secondary_script = ''0x00000001'' \<and>
      take 40 (drop 10 example_secondary_script) = drop 2 (secondary stub_agent)"
    unfolding secondary ProposalType.case by blast
  have "primary stub_agent \<noteq> secondary stub_agent"
    by (simp add: stub_agent_def)
  then show ?thesis
    using 1 2 example_transfer_encode example_secondary_encode by blast
qed

section \<open>Validation errors\<close>

lemma splitTopLevel_flat:
  "CHR ''('' \<notin> set s \<Longrightarrow> CHR '')'' \<notin> set s \<Longrightarrow> splitTopLevel 0 s = split (CHR '','') s"
  by (induction s) auto

text \<open>
  For a signature written as a name, \<open>(\<close>, types separated by commas, \<open>)\<close>, where no type is
  empty or has a parenthesis or a comma in it, the declared parameters are these types.
\<close>

lemma declaredParameters_flat:
  assumes "CHR ''('' \<notin> set name"
    and "\<forall>t \<in> set tys. t \<noteq> [] \<and> CHR '','' \<notin> set t \<and> CHR ''('' \<notin> set t \<and> CHR '')'' \<notin> set t"
  shows "declaredParameters (name @ ''('' @ joinWith (CHR '','') tys @ '')'') = tys"
proof -
  let ?body = "joinWith (CHR '','') tys"
  have no_open: "CHR ''('' \<notin> set ?body"
    using assms(2) by (intro joinWith_notin) auto
  have no_close: "CHR '')'' \<notin> set ?body"
    using assms(2) by (intro joinWith_notin) auto
  have "dropWhile (\<lambda>c. c \<noteq> CHR ''('') (name @ CHR ''('' # ?body @ '')'') = CHR ''('' # ?body @ '')''"
    using assms(1) by (subst dropWhile_append2) auto
  then have inner: "rev (tl (dropWhile (\<lambda>c. c \<noteq> CHR '')'')
      (rev (tl (dropWhile (\<lambda>c. c \<noteq> CHR ''('') (name @ ''('' @ ?body @ '')'')))))) = ?body"
    by simp
  have pieces: "splitTopLevel 0 ?body = split (CHR '','') ?body"
    using no_open no_close by (rule splitTopLevel_flat)
  have nonempty: "filter (\<lambda>s. s \<noteq> []) tys = tys"
    using assms(2) by (simp add: filter_id_conv)
  show ?thesis
  proof (cases "tys = []")
    case True
    then show ?thesis
      unfolding declaredParameters_def inner pieces by simp
  next
    case False
    then have "split (CHR '','') ?body = tys"
      using assms(2) by (intro split_joinWith) auto
    then show ?thesis
      unfolding declaredParameters_def inner pieces using nonempty by simp
  qed
qed

text \<open>
  Claim C7, as amended. The signature is written as a name, \<open>(\<close>, types separated by
  commas, \<open>)\<close>, where no type is empty or has a parenthesis or a comma in it (no tuple
  types); the arity it declares is then the number of these types. When the parameters
  are a JSON array and the signature is accepted, the encoder fails with the error of the
  field \<open>parameters\<close> that asks for the correct number of arguments exactly when the length
  of the array differs from the declared arity.
\<close>

theorem goEncodeEvmScript_arity:
  assumes "JSON_parse e (parameters formData) = Some (JArray targetParameters)"
    and "FunctionFragment_from e (targetSignature formData)"
    and "targetSignature formData = name @ ''('' @ joinWith (CHR '','') tys @ '')''"
    and "CHR ''('' \<notin> set name" and "CHR '')'' \<notin> set name"
    and "\<forall>t \<in> set tys. t \<noteq> [] \<and> CHR '','' \<notin> set t \<and> CHR ''('' \<notin> set t \<and> CHR '')'' \<notin> set t"
  shows "declaredArity (targetSignature formData) = length tys \<and>
         (goEncodeEvmScript e p formData api3Agent =
            Inl (EncodedEvmScriptError Parameters
                   ''Please specify the correct number of function arguments'')) =
         (length targetParameters \<noteq> declaredArity (targetSignature formData))"
proof -
  have declared: "declaredArity (targetSignature formData) = length tys"
    using declaredParameters_flat [OF assms(4,6)] by (simp add: declaredArity_def assms(3))
  have "parameterTypes_encode (name @ ''('' @ joinWith (CHR '','') tys @ '')'' @ []) = tys"
    using assms(4,5,6) by (intro parameterTypes_flat(1)) auto
  then have read: "parameterTypes_encode (targetSignature formData) = tys"
    unfolding assms(3) by simp
  have json: "goJsonParams e formData = Some targetParameters"
    using assms(1) by (simp add: goJsonParams_Some)
  have accepted: "goTargetSignature e formData"
    using assms(2) by (simp add: goTargetSignature_def)
  have "(goEncodeEvmScript e p formData api3Agent =
            Inl (EncodedEvmScriptError Parameters
                   ''Please specify the correct number of function arguments'')) =
        (length targetParameters \<noteq> length tys)"
  proof (cases "length targetParameters = length tys")
    case True
    then have "goExtractParameters (targetSignature formData) targetParameters = Some tys"
      by (simp add: goExtractParameters_Some read)
    then show ?thesis
      using True json accepted by (simp add: goEncodeEvmScript_def split: option.split)
  next
    case False
    then have "goExtractParameters (targetSignature formData) targetParameters = None"
      by (auto simp: goExtractParameters_def Let_def read)
    then show ?thesis
      using False json accepted by (simp add: goEncodeEvmScript_def)
  qed
  then show ?thesis
    using declared by simp
qed

theorem goEncodeEvmScript_arity_witness:
  "declaredArity (targetSignature (example_transfer \<lparr> parameters := ''[]'' \<rparr>)) = 2 \<and>
   goEncodeEvmScript stub_ethers stub_provider (example_transfer \<lparr> parameters := ''[]'' \<rparr>)
     stub_agent =
     Inl (EncodedEvmScriptError Parameters
            ''Please specify the correct number of function arguments'') \<and>
   declaredArity (targetSignature (example_pause \<lparr> parameters := ''[null]'' \<rparr>)) = 0 \<and>
   goEncodeEvmScript stub_ethers stub_provider (example_pause \<lparr> parameters := ''[null]'' \<rparr>)
     stub_agent =
     Inl (EncodedEvmScriptError Parameters
            ''Please specify the correct number of function arguments'') \<and>
   declaredArity (targetSignature example_transfer) = 2 \<and>
   goEncodeEvmScript stub_ethers stub_provider example_transfer stub_agent \<noteq>
     Inl (EncodedEvmScriptError Parameters
            ''Please specify the correct number of function arguments'')"
proof -
  from goEncodeEvmScript_arity [where e = stub_ethers and p = stub_provider and
      api3Agent = stub_agent and formData = "example_transfer \<lparr> parameters := ''[]'' \<rparr>" and
      targetParameters = "[]" and name = "''transfer''" and tys = "[''address'', ''uint256'']"]
  have 1: "declaredArity (targetSignature (example_transfer \<lparr> parameters := ''[]'' \<rparr>)) = 2 \<and>
      goEncodeEvmScript stub_ethers stub_provider (example_transfer \<lparr> parameters := ''[]'' \<rparr>)
        stub_agent =
      Inl (EncodedEvmScriptError Parameters
             ''Please specify the correct number of function arguments'')"
    by (simp add: example_transfer_def example_json stub_signatures)
  from goEncodeEvmScript_arity [where e = stub_ethers and p = stub_provider and
      api3Agent = stub_agent and formData = "example_pause \<lparr> parameters := ''[null]'' \<rparr>" and
      targetParameters = "[JNull]" and name = "''pause''" and tys = "[]"]
  have 2: "declaredArity (targetSignature (example_pause \<lparr> parameters := ''[null]'' \<rparr>)) = 0 \<and>
      goEncodeEvmScript stub_ethers stub_provider (example_pause \<lparr> parameters := ''[null]'' \<rparr>)
        stub_agent =
      Inl (EncodedEvmScriptError Parameters
             ''Please specify the correct number of function arguments'')"
    by (simp add: example_pause_def example_json stub_signatures)
  from goEncodeEvmScript_arity [where e = stub_ethers and p = stub_provider and
      api3Agent = stub_agent and formData = example_transfer and
      targetParameters = "[JString ''api3.eth'', JString ''1000'']" and
      name = "''transfer''" and tys = "[''address'', ''uint256'']"]
  have 3: "declaredArity (targetSignature example_transfer) = 2 \<and>
      goEncodeEvmScript stub_ethers stub_provider example_transfer stub_agent \<noteq>
      Inl (EncodedEvmScriptError Parameters
             ''Please specify the correct number of function arguments'')"
    by (simp add: example_transfer_def example_json stub_signatures)
  from 1 2 3 show ?thesis by blast
qed

text \<open>
  The claim as the specification states it fails for a parameter of a tuple type. The
  signature \<open>f((uint256,address))\<close> is accepted and declares one parameter; with two values
  the lengths differ, and the encoder fails with another error, that of the ABI encoding:
  it reads the two types \<open>(uint256\<close> and \<open>address\<close> up to the first \<open>)\<close>, so its own
  count passes.
\<close>

theorem goEncodeEvmScript_tuple_parameter:
  "JSON_parse stub_ethers (parameters example_tuple) =
     Some (JArray [JString ''1'', JString ''0x5555555555555555555555555555555555555555'']) \<and>
   FunctionFragment_from stub_ethers (targetSignature example_tuple) \<and>
   declaredParameters (targetSignature example_tuple) = [''(uint256,address)''] \<and>
   declaredArity (targetSignature example_tuple) = 1 \<and>
   parameterTypes_encode (targetSignature example_tuple) = [''(uint256'', ''address''] \<and>
   goEncodeEvmScript stub_ethers stub_provider example_tuple stub_agent =
     Inl (EncodedEvmScriptError Parameters ''Ensure parameters match target contract signature'')"
  by (simp add: example_tuple_encode)
    (simp add: example_tuple_def example_json stub_signatures example_parameterTypes
      declaredArity_def declaredParameters_def)

text \<open>
  Claim C8. When the steps before the value pass, the value \<open>-1\<close> fails with the error of
  the field \<open>targetValue\<close>, and the value \<open>0\<close> passes the value step as the amount zero: the
  result is then what the assembly of the script gives.
\<close>

theorem goEncodeEvmScript_value:
  assumes "goJsonParams e formData = Some targetParameters"
    and "goTargetSignature e formData"
    and "goExtractParameters (targetSignature formData) targetParameters = Some parameterTypes"
    and "goEncodeParameters e p parameterTypes targetParameters = Some encodedTargetParameters"
    and "goTargetAddress e p formData = Some a"
  shows "goEncodeEvmScript e p (formData \<lparr> targetValue := ''-1'' \<rparr>) api3Agent =
           Inl (EncodedEvmScriptError TargetValue ''Please enter a valid amount in Wei'') \<and>
         goValue (formData \<lparr> targetValue := ''0'' \<rparr>) = Some 0 \<and>
         goEncodeEvmScript e p (formData \<lparr> targetValue := ''0'' \<rparr>) api3Agent =
           (case goBuildEvmScript e (formData \<lparr> targetValue := ''0'' \<rparr>) api3Agent a 0
                   encodedTargetParameters of
              None \<Rightarrow> Inl (EncodedEvmScriptError Generic
                ''Unable to encode the EVM script. Please check that all form fields are correct'')
            | Some evmScript \<Rightarrow> Inr evmScript)"
proof -
  have steps: "goJsonParams e (formData \<lparr> targetValue := x \<rparr>) = Some targetParameters"
    "goTargetSignature e (formData \<lparr> targetValue := x \<rparr>)"
    "goExtractParameters (targetSignature (formData \<lparr> targetValue := x \<rparr>)) targetParameters =
       Some parameterTypes"
    "goTargetAddress e p (formData \<lparr> targetValue := x \<rparr>) = Some a" for x
    using assms by (simp_all add: goJsonParams_def goTargetSignature_def goTargetAddress_def)
  have neg: "goValue (formData \<lparr> targetValue := ''-1'' \<rparr>) = None"
    by (simp add: goValue_def example_values)
  have zero: "goValue (formData \<lparr> targetValue := ''0'' \<rparr>) = Some 0"
    by (simp add: goValue_def example_values)
  show ?thesis
    using steps assms(4) neg zero by (simp add: goEncodeEvmScript_def)
qed

theorem goEncodeEvmScript_value_witness:
  "goEncodeEvmScript stub_ethers stub_provider (example_transfer \<lparr> targetValue := ''-1'' \<rparr>)
     stub_agent =
     Inl (EncodedEvmScriptError TargetValue ''Please enter a valid amount in Wei'') \<and>
   goEncodeEvmScript stub_ethers stub_provider (example_transfer \<lparr> targetValue := ''0'' \<rparr>)
     stub_agent = Inr example_transfer_script"
proof -
  have json: "goJsonParams stub_ethers example_transfer =
      Some [JString ''api3.eth'', JString ''1000'']"
    by (simp add: goJsonParams_def example_transfer_def example_json)
  have sig: "goTargetSignature stub_ethers example_transfer"
    by (simp add: goTargetSignature_def example_transfer_def stub_signatures)
  have tys: "goExtractParameters (targetSignature example_transfer)
      [JString ''api3.eth'', JString ''1000''] = Some [''address'', ''uint256'']"
    by (simp add: goExtractParameters_def example_transfer_def example_parameterTypes)
  have addr: "goTargetAddress stub_ethers stub_provider example_transfer =
      Some ''0x4444444444444444444444444444444444444444''"
    by (simp add: goTargetAddress_def example_transfer_def example_target)
  have same: "example_transfer \<lparr> targetValue := ''0'' \<rparr> = example_transfer"
    by (simp add: example_transfer_def)
  show ?thesis
    using goEncodeEvmScript_value [OF json sig tys example_transfer_parameters addr, of stub_agent]
      example_transfer_build
    by (simp add: same)
qed
section \<open>Results of the decoder\<close>

lemma executionParameters_Some:
  "executionParameters decoded = Some (a, v, cd) \<longleftrightarrow>
     decoded = [JString a, JBigNumber v, JString cd]"
  by (cases decoded rule: executionParameters.cases) auto

lemma decodeEvmScript_Some:
  assumes "decodeEvmScript e p script metadata = Some d"
  shows "\<exists>a v targetCallData inner decodedParameters.
       isHexString script \<and> even (length script) \<and>
       abi_decode e [''address'', ''uint256'', ''bytes''] (''0x'' @ drop 66 script) =
         Some [JString a, JBigNumber v, JString targetCallData] \<and>
       hexDataSlice targetCallData 4 = Some inner \<and>
       abi_decode e (parameterTypes_decode (targetSignature_m metadata)) inner =
         Some decodedParameters \<and>
       d = \<lparr> targetAddress_d = tryConvertToEnsName p a,
             value_d = v,
             parameters_d =
               map stringifyBigNumbersRecursively
                 (lookupParameters p (parameterTypes_decode (targetSignature_m metadata))
                    decodedParameters) \<rparr>"
proof -
  from assms have hex: "isHexString script \<and> even (length script)"
    by (simp add: decodeEvmScript_eq split: if_splits)
  with assms obtain decoded a v targetCallData inner decodedParameters where
    "abi_decode e [''address'', ''uint256'', ''bytes''] (''0x'' @ drop 66 script) = Some decoded"
    "executionParameters decoded = Some (a, v, targetCallData)"
    "hexDataSlice targetCallData 4 = Some inner"
    "abi_decode e (parameterTypes_decode (targetSignature_m metadata)) inner =
       Some decodedParameters"
    "d = \<lparr> targetAddress_d = tryConvertToEnsName p a,
          value_d = v,
          parameters_d =
            map stringifyBigNumbersRecursively
              (lookupParameters p (parameterTypes_decode (targetSignature_m metadata))
                 decodedParameters) \<rparr>"
    by (auto simp: decodeEvmScript_eq split: Option.bind_splits)
  then show ?thesis
    using hex by (auto simp: executionParameters_Some)
qed

lemma decodeEvmScript_short:
  assumes "length script < 66"
    and "abi_decode e [''address'', ''uint256'', ''bytes''] ''0x'' = None"
  shows "decodeEvmScript e p script metadata = None"
  using assms by (simp add: decodeEvmScript_eq)

text \<open>
  Claim C5. \<open>decodeEvmScript\<close> returns either nothing or a value whose three fields all come
  from steps that succeeded: the script is hex data, both ABI decodings and the slice of
  the inner call returned. A string that is not hex data gives nothing, and so does a
  script of fewer than 32 bytes when the ABI coder rejects empty data.
\<close>

theorem decodeEvmScript_null_or_complete:
  "(decodeEvmScript e p script metadata = None \<or>
    (\<exists>a v targetCallData inner decodedParameters.
       isHexString script \<and> even (length script) \<and>
       abi_decode e [''address'', ''uint256'', ''bytes''] (''0x'' @ drop 66 script) =
         Some [JString a, JBigNumber v, JString targetCallData] \<and>
       hexDataSlice targetCallData 4 = Some inner \<and>
       abi_decode e (parameterTypes_decode (targetSignature_m metadata)) inner =
         Some decodedParameters \<and>
       decodeEvmScript e p script metadata =
         Some \<lparr> targetAddress_d = tryConvertToEnsName p a,
                value_d = v,
                parameters_d =
                  map stringifyBigNumbersRecursively
                    (lookupParameters p (parameterTypes_decode (targetSignature_m metadata))
                       decodedParameters) \<rparr>)) \<and>
   (\<not> isHexString script \<or> odd (length script) \<longrightarrow>
      decodeEvmScript e p script metadata = None) \<and>
   (length script < 66 \<and> abi_decode e [''address'', ''uint256'', ''bytes''] ''0x'' = None \<longrightarrow>
      decodeEvmScript e p script metadata = None)"
proof (intro conjI impI)
  show "decodeEvmScript e p script metadata = None \<or>
    (\<exists>a v targetCallData inner decodedParameters.
       isHexString script \<and> even (length script) \<and>
       abi_decode e [''address'', ''uint256'', ''bytes''] (''0x'' @ drop 66 script) =
         Some [JString a, JBigNumber v, JString targetCallData] \<and>
       hexDataSlice targetCallData 4 = Some inner \<and>
       abi_decode e (parameterTypes_decode (targetSignature_m metadata)) inner =
         Some decodedParameters \<and>
       decodeEvmScript e p script metadata =
         Some \<lparr> targetAddress_d = tryConvertToEnsName p a,
                value_d = v,
                parameters_d =
                  map stringifyBigNumbersRecursively
                    (lookupParameters p (parameterTypes_decode (targetSignature_m metadata))
                       decodedParameters) \<rparr>)"
  proof (cases "decodeEvmScript e p script metadata")
    case None
    then show ?thesis by simp
  next
    case (Some d)
    from decodeEvmScript_Some [OF Some] show ?thesis
      unfolding Some by blast
  qed
next
  assume "\<not> isHexString script \<or> odd (length script)"
  then show "decodeEvmScript e p script metadata = None"
    by (auto simp: decodeEvmScript_eq)
next
  assume "length script < 66 \<and> abi_decode e [''address'', ''uint256'', ''bytes''] ''0x'' = None"
  then show "decodeEvmScript e p script metadata = None"
    by (simp add: decodeEvmScript_short)
qed

theorem decodeEvmScript_null_or_complete_witness:
  "decodeEvmScript stub_ethers stub_provider ''0x00000001'' (metadataOf example_transfer) = None \<and>
   decodeEvmScript stub_ethers stub_provider ''transfer'' (metadataOf example_transfer) = None \<and>
   decodeEvmScript stub_ethers stub_provider example_transfer_script (metadataOf example_transfer)
     \<noteq> None"
proof -
  have short: "length ''0x00000001'' < 66 \<and>
      abi_decode stub_ethers [''address'', ''uint256'', ''bytes''] ''0x'' = None"
    by (simp add: stub_decode_defs)
  have garbage: "\<not> isHexString ''transfer'' \<or> odd (length ''transfer'')"
    by (simp add: isHexString_def)
  show ?thesis
    using decodeEvmScript_null_or_complete
            [of stub_ethers stub_provider "''0x00000001''" "metadataOf example_transfer"]
          decodeEvmScript_null_or_complete
            [of stub_ethers stub_provider "''transfer''" "metadataOf example_transfer"]
          short garbage example_transfer_decode
    by simp
qed

section \<open>The decoded parameters\<close>

lemma noBigNumber_stringify: "noBigNumber (stringifyBigNumbersRecursively v)"
  by (induction v rule: stringifyBigNumbersRecursively.induct) (auto simp: list_all_iff)

lemma lookupParameters_eq:
  "lookupParameters p parameterTypes decodedParameters =
     map (\<lambda>i. if parameterTypes ! i = ''address''
               then tryConvertParamToEnsName p (at decodedParameters i)
               else at decodedParameters i)
         [0 ..< length parameterTypes]"
  by (simp add: lookupParameters_def Let_def)

lemma length_lookupParameters [simp]:
  "length (lookupParameters p parameterTypes decodedParameters) = length parameterTypes"
  by (simp add: lookupParameters_def)

lemma displayed_parameter:
  "stringifyBigNumbersRecursively
     (if ty = ''address'' then tryConvertParamToEnsName p param else param) =
   (case param of
      JString s \<Rightarrow>
        JString (if ty = ''address''
                 then (case lookupAddress p s of Some n \<Rightarrow> n | None \<Rightarrow> s)
                 else s)
    | JBigNumber n \<Rightarrow> JString (BigNumber_toString n)
    | JArray vs \<Rightarrow> JArray (map stringifyBigNumbersRecursively vs)
    | JBool b \<Rightarrow> JBool b
    | JNumber n \<Rightarrow> JNumber n
    | JObject kvs \<Rightarrow> JObject kvs
    | JNull \<Rightarrow> JNull
    | JUndefined \<Rightarrow> JUndefined)"
  by (cases param) (simp_all add: tryConvertParamToEnsName_def tryConvertToEnsName_def)

text \<open>
  Claim C9, as amended. When \<open>decodeEvmScript\<close> returns a value for a script, the script
  from its byte 32 on decodes, as \<open>(address, uint256, bytes)\<close>, to a target, a value and
  the inner call, and the inner call from its byte 4 on decodes, with the types read from
  the signature, to the values \<open>decodedParameters\<close>. The returned parameters are as many
  as the types read, none of them has a \<open>BigNumber\<close> in it at any depth of nested arrays,
  and the one at each position is made from the decoded value at that position:
  \<^item> a string is replaced by the name the reverse lookup gives when the type at the
    position is exactly \<open>address\<close>, and is unchanged when the lookup gives none or the
    type is another one;
  \<^item> a \<open>BigNumber\<close> becomes its decimal string;
  \<^item> an array stays an array, of its entries with their \<open>BigNumber\<close>s converted;
  \<^item> a boolean, a number, an object, \<open>null\<close> and \<open>undefined\<close> are unchanged.

  So an entry need not be a string.
\<close>

theorem decodeEvmScript_parameters:
  assumes "decodeEvmScript e p script metadata = Some d"
  shows "\<exists>a v targetCallData decodedParameters.
      abi_decode e [''address'', ''uint256'', ''bytes''] (''0x'' @ drop 66 script) =
        Some [JString a, JBigNumber v, JString targetCallData] \<and>
      abi_decode e (parameterTypes_decode (targetSignature_m metadata))
        (''0x'' @ drop 10 targetCallData) = Some decodedParameters \<and>
      length (parameters_d d) = length (parameterTypes_decode (targetSignature_m metadata)) \<and>
      list_all noBigNumber (parameters_d d) \<and>
      (\<forall>i < length (parameters_d d).
         parameters_d d ! i =
           (case at decodedParameters i of
              JString s \<Rightarrow>
                JString (if parameterTypes_decode (targetSignature_m metadata) ! i = ''address''
                         then (case lookupAddress p s of Some n \<Rightarrow> n | None \<Rightarrow> s)
                         else s)
            | JBigNumber n \<Rightarrow> JString (BigNumber_toString n)
            | JArray vs \<Rightarrow> JArray (map stringifyBigNumbersRecursively vs)
            | JBool b \<Rightarrow> JBool b
            | JNumber n \<Rightarrow> JNumber n
            | JObject kvs \<Rightarrow> JObject kvs
            | JNull \<Rightarrow> JNull
            | JUndefined \<Rightarrow> JUndefined))"
proof -
  let ?tys = "parameterTypes_decode (targetSignature_m metadata)"
  from decodeEvmScript_Some [OF assms] obtain a v targetCallData inner decodedParameters where
    outer: "abi_decode e [''address'', ''uint256'', ''bytes''] (''0x'' @ drop 66 script) =
              Some [JString a, JBigNumber v, JString targetCallData]" and
    slice: "hexDataSlice targetCallData 4 = Some inner" and
    dec: "abi_decode e ?tys inner = Some decodedParameters" and
    d: "d = \<lparr> targetAddress_d = tryConvertToEnsName p a, value_d = v,
              parameters_d =
                map stringifyBigNumbersRecursively
                  (lookupParameters p ?tys decodedParameters) \<rparr>"
    by blast
  have ps: "parameters_d d =
      map stringifyBigNumbersRecursively (lookupParameters p ?tys decodedParameters)"
    unfolding d by simp
  have "inner = ''0x'' @ drop 10 targetCallData"
    using slice by (simp add: hexDataSlice_eq split: if_splits)
  with dec have inner: "abi_decode e ?tys (''0x'' @ drop 10 targetCallData) =
      Some decodedParameters"
    by (simp only:)
  have len: "length (parameters_d d) = length ?tys"
    unfolding ps by simp
  have clean: "list_all noBigNumber (parameters_d d)"
    unfolding ps by (simp add: list_all_iff noBigNumber_stringify)
  have entry: "parameters_d d ! i =
      (case at decodedParameters i of
         JString s \<Rightarrow>
           JString (if ?tys ! i = ''address''
                    then (case lookupAddress p s of Some n \<Rightarrow> n | None \<Rightarrow> s)
                    else s)
       | JBigNumber n \<Rightarrow> JString (BigNumber_toString n)
       | JArray vs \<Rightarrow> JArray (map stringifyBigNumbersRecursively vs)
       | JBool b \<Rightarrow> JBool b
       | JNumber n \<Rightarrow> JNumber n
       | JObject kvs \<Rightarrow> JObject kvs
       | JNull \<Rightarrow> JNull
       | JUndefined \<Rightarrow> JUndefined)" if "i < length (parameters_d d)" for i
  proof -
    from that have i: "i < length ?tys" by (simp only: len)
    then have "parameters_d d ! i =
        stringifyBigNumbersRecursively
          (if ?tys ! i = ''address'' then tryConvertParamToEnsName p (at decodedParameters i)
           else at decodedParameters i)"
      unfolding ps lookupParameters_eq by simp
    then show ?thesis
      by (simp only: displayed_parameter)
  qed
  show ?thesis
    using outer inner len clean entry by blast
qed

theorem decodeEvmScript_parameters_witness:
  "decodeEvmScript stub_ethers stub_provider example_transfer_script (metadataOf example_transfer) =
     Some \<lparr> targetAddress_d = ''0x4444444444444444444444444444444444444444'', value_d = 0,
            parameters_d = [JString ''api3.eth'', JString ''1000''] \<rparr> \<and>
   (\<exists>a v targetCallData decodedParameters.
      abi_decode stub_ethers [''address'', ''uint256'', ''bytes'']
        (''0x'' @ drop 66 example_transfer_script) =
        Some [JString a, JBigNumber v, JString targetCallData] \<and>
      abi_decode stub_ethers [''address'', ''uint256''] (''0x'' @ drop 10 targetCallData) =
        Some decodedParameters \<and>
      JString ''api3.eth'' =
        (case at decodedParameters 0 of
           JString s \<Rightarrow> JString (case lookupAddress stub_provider s of Some n \<Rightarrow> n | None \<Rightarrow> s)
         | JBigNumber n \<Rightarrow> JString (BigNumber_toString n)
         | JArray vs \<Rightarrow> JArray (map stringifyBigNumbersRecursively vs)
         | JBool b \<Rightarrow> JBool b
         | JNumber n \<Rightarrow> JNumber n
         | JObject kvs \<Rightarrow> JObject kvs
         | JNull \<Rightarrow> JNull
         | JUndefined \<Rightarrow> JUndefined) \<and>
      JString ''1000'' =
        (case at decodedParameters 1 of
           JString s \<Rightarrow> JString s
         | JBigNumber n \<Rightarrow> JString (BigNumber_toString n)
         | JArray vs \<Rightarrow> JArray (map stringifyBigNumbersRecursively vs)
         | JBool b \<Rightarrow> JBool b
         | JNumber n \<Rightarrow> JNumber n
         | JObject kvs \<Rightarrow> JObject kvs
         | JNull \<Rightarrow> JNull
         | JUndefined \<Rightarrow> JUndefined))"
proof -
  have tys: "parameterTypes_decode (targetSignature_m (metadataOf example_transfer)) =
      [''address'', ''uint256'']"
    by (simp add: metadataOf_def example_transfer_def example_parameterTypes)
  from decodeEvmScript_parameters [OF example_transfer_decode]
  obtain a v targetCallData decodedParameters where
    outer: "abi_decode stub_ethers [''address'', ''uint256'', ''bytes'']
        (''0x'' @ drop 66 example_transfer_script) =
        Some [JString a, JBigNumber v, JString targetCallData]" and
    inner: "abi_decode stub_ethers [''address'', ''uint256''] (''0x'' @ drop 10 targetCallData) =
        Some decodedParameters" and
    entries: "\<forall>i < 2. [JString ''api3.eth'', JString ''1000''] ! i =
        (case at decodedParameters i of
           JString s \<Rightarrow>
             JString (if [''address'', ''uint256''] ! i = ''address''
                      then (case lookupAddress stub_provider s of Some n \<Rightarrow> n | None \<Rightarrow> s)
                      else s)
         | JBigNumber n \<Rightarrow> JString (BigNumber_toString n)
         | JArray vs \<Rightarrow> JArray (map stringifyBigNumbersRecursively vs)
         | JBool b \<Rightarrow> JBool b
         | JNumber n \<Rightarrow> JNumber n
         | JObject kvs \<Rightarrow> JObject kvs
         | JNull \<Rightarrow> JNull
         | JUndefined \<Rightarrow> JUndefined)"
    unfolding tys by (auto simp del: stub_ethers_fields)
  from entries have "[JString ''api3.eth'', JString ''1000''] ! 0 =
        (case at decodedParameters 0 of
           JString s \<Rightarrow>
             JString (if [''address'', ''uint256''] ! 0 = ''address''
                      then (case lookupAddress stub_provider s of Some n \<Rightarrow> n | None \<Rightarrow> s)
                      else s)
         | JBigNumber n \<Rightarrow> JString (BigNumber_toString n)
         | JArray vs \<Rightarrow> JArray (map stringifyBigNumbersRecursively vs)
         | JBool b \<Rightarrow> JBool b
         | JNumber n \<Rightarrow> JNumber n
         | JObject kvs \<Rightarrow> JObject kvs
         | JNull \<Rightarrow> JNull
         | JUndefined \<Rightarrow> JUndefined)"
    by (elim allE [of _ 0]) simp
  then have first: "JString ''api3.eth'' =
        (case at decodedParameters 0 of
           JString s \<Rightarrow> JString (case lookupAddress stub_provider s of Some n \<Rightarrow> n | None \<Rightarrow> s)
         | JBigNumber n \<Rightarrow> JString (BigNumber_toString n)
         | JArray vs \<Rightarrow> JArray (map stringifyBigNumbersRecursively vs)
         | JBool b \<Rightarrow> JBool b
         | JNumber n \<Rightarrow> JNumber n
         | JObject kvs \<Rightarrow> JObject kvs
         | JNull \<Rightarrow> JNull
         | JUndefined \<Rightarrow> JUndefined)"
    by (cases "at decodedParameters 0") simp_all
  from entries have "[JString ''api3.eth'', JString ''1000''] ! 1 =
        (case at decodedParameters 1 of
           JString s \<Rightarrow>
             JString (if [''address'', ''uint256''] ! 1 = ''address''
                      then (case lookupAddress stub_provider s of Some n \<Rightarrow> n | None \<Rightarrow> s)
                      else s)
         | JBigNumber n \<Rightarrow> JString (BigNumber_toString n)
         | JArray vs \<Rightarrow> JArray (map stringifyBigNumbersRecursively vs)
         | JBool b \<Rightarrow> JBool b
         | JNumber n \<Rightarrow> JNumber n
         | JObject kvs \<Rightarrow> JObject kvs
         | JNull \<Rightarrow> JNull
         | JUndefined \<Rightarrow> JUndefined)"
    by (elim allE [of _ 1]) simp
  then have second: "JString ''1000'' =
        (case at decodedParameters 1 of
           JString s \<Rightarrow> JString s
         | JBigNumber n \<Rightarrow> JString (BigNumber_toString n)
         | JArray vs \<Rightarrow> JArray (map stringifyBigNumbersRecursively vs)
         | JBool b \<Rightarrow> JBool b
         | JNumber n \<Rightarrow> JNumber n
         | JObject kvs \<Rightarrow> JObject kvs
         | JNull \<Rightarrow> JNull
         | JUndefined \<Rightarrow> JUndefined)"
    by (cases "at decodedParameters 1") simp_all
  show ?thesis
    using example_transfer_decode outer inner first second by blast
qed

text \<open>
  The claim as the specification states it, that every returned parameter is a string,
  fails for a boolean argument: the decoded \<open>true\<close> is returned as a boolean.
\<close>

theorem decodeEvmScript_boolean_parameter:
  "decodeEvmScript stub_ethers stub_provider example_approval_script
     (metadataOf example_approval) =
     Some \<lparr> targetAddress_d = ''0x4444444444444444444444444444444444444444'', value_d = 0,
            parameters_d =
              [JString ''0x5555555555555555555555555555555555555555'', JBool True] \<rparr> \<and>
   \<not> isString (JBool True)"
  using example_approval_decode by simp

section \<open>Decoding what the encoder returns\<close>

text \<open>
  The decoder's offsets fit the encoder's layout. When the agent address is 20 bytes of
  hex data, the encoded parameters are hex data, and the ABI coder returns hex data for
  the arguments of \<open>execute\<close> and decodes it to an address \<open>a'\<close>, the value and the inner
  call, the decoder finds the encoded parameters and decodes them with its own reading of
  the parameter types.
\<close>

lemma isHexString_prefix: "isHexString s \<Longrightarrow> ''0x'' @ drop 2 s = s"
proof -
  assume "isHexString s"
  then have "take 2 s = ''0x''" by (simp add: isHexString_def)
  then have "''0x'' @ drop 2 s = take 2 s @ drop 2 s" by (simp only:)
  then show ?thesis by (simp only: append_take_drop_id)
qed

lemma decodeEvmScript_goEncodeEvmScript:
  assumes enc: "goEncodeEvmScript e p formData api3Agent = Inr evmScript"
    and params: "goEncodeParameters e p (parameterTypes_encode (targetSignature formData))
                   targetParameters = Some encodedTargetParameters"
      "JSON_parse e (parameters formData) = Some (JArray targetParameters)"
    and addr: "convertToAddressOrThrow e p (targetAddress formData) = Some a"
    and val: "BigNumber_from (targetValue formData) = Some v"
    and agent: "isHexString (agentOf api3Agent (type formData))"
      "length (agentOf api3Agent (type formData)) = 42"
    and hexP: "isHexString encodedTargetParameters" "even (length encodedTargetParameters)"
    and outer: "\<And>encoded.
      abi_encode e [''address'', ''uint256'', ''bytes'']
        [JString a, JBigNumber v,
         JString (encodeFunctionSignature e (targetSignature formData) @
                  drop 2 encodedTargetParameters)] = Some encoded \<Longrightarrow>
      isHexString encoded \<and> even (length encoded) \<and>
      abi_decode e [''address'', ''uint256'', ''bytes''] encoded =
        Some [JString a', JBigNumber v,
              JString (encodeFunctionSignature e (targetSignature formData) @
                       drop 2 encodedTargetParameters)]"
  shows "decodeEvmScript e p evmScript (metadataOf formData) =
     (case abi_decode e (parameterTypes_decode (targetSignature formData))
             encodedTargetParameters of
        None \<Rightarrow> None
      | Some decodedParameters \<Rightarrow>
          Some \<lparr> targetAddress_d = tryConvertToEnsName p a',
                 value_d = v,
                 parameters_d =
                   map stringifyBigNumbersRecursively
                     (lookupParameters p (parameterTypes_decode (targetSignature formData))
                        decodedParameters) \<rparr>)"
proof -
  let ?sig = "targetSignature formData"
  let ?inner = "encodeFunctionSignature e ?sig @ drop 2 encodedTargetParameters"
  let ?agent = "agentOf api3Agent (type formData)"
  from goEncodeEvmScript_Inr [OF enc] obtain targetParameters' params' encP' a0 v0 encoded where
    json': "JSON_parse e (parameters formData) = Some (JArray targetParameters')" and
    res': "resolveParameters e p (parameterTypes_encode ?sig) targetParameters' = Some params'" and
    abi': "abi_encode e (parameterTypes_encode ?sig) params' = Some encP'" and
    a0: "convertToAddressOrThrow e p (targetAddress formData) = Some a0" and
    v0: "BigNumber_from (targetValue formData) = Some v0" and
    out: "abi_encode e [''address'', ''uint256'', ''bytes'']
       [JString a0, JBigNumber v0, JString (encodeFunctionSignature e ?sig @ drop 2 encP')] =
       Some encoded" and
    script: "evmScript = ''0x00000001'' @ drop 2 ?agent @
       hexPad 8 (4 + length (drop 2 encoded) div 2) @
       hexPad 8 (unat (keccak256 e ''execute(address,uint256,bytes)'') div 16 ^ 56) @
       drop 2 encoded"
    by blast
  have "targetParameters' = targetParameters" using json' params(2) by simp
  then have "encP' = encodedTargetParameters"
    using res' abi' params(1) by (simp add: goEncodeParameters_def)
  moreover have "a0 = a" using a0 addr by simp
  moreover have "v0 = v" using v0 val by simp
  ultimately have "abi_encode e [''address'', ''uint256'', ''bytes'']
       [JString a, JBigNumber v, JString ?inner] = Some encoded"
    using out by simp
  from outer [OF this] have
    hexE: "isHexString encoded" "even (length encoded)" and
    dec: "abi_decode e [''address'', ''uint256'', ''bytes''] encoded =
            Some [JString a', JBigNumber v, JString ?inner]"
    by simp_all
  have enc0x: "''0x'' @ drop 2 encoded = encoded"
    using hexE(1) by (rule isHexString_prefix)
  have p0x: "''0x'' @ drop 2 encodedTargetParameters = encodedTargetParameters"
    using hexP(1) by (rule isHexString_prefix)
  have agentDigits: "length (drop 2 ?agent) = 40" using agent(2) by simp
  have drop66: "drop 66 evmScript = drop 2 encoded"
    unfolding script using agentDigits by simp
  have hexScript: "isHexString evmScript"
    unfolding script
    using agent(1) hexE(1)
    by (simp add: isHexString_def hexPad_isHex isHexChar_def)
  have evenScript: "even (length evmScript)"
    unfolding script using agent(2) hexE(2) by simp
  have sel: "encodeFunctionSignature e ?sig = ''0x'' @ hexPad 8 (unat (keccak256 e ?sig) div 16 ^ 56)"
    by (rule encodeFunctionSignature_eq)
  have hexInner: "isHexString ?inner"
    using hexP(1) by (simp add: sel isHexString_def hexPad_isHex)
  have evenInner: "even (length ?inner)"
    using hexP by (simp add: sel isHexString_def) 
  have slice: "hexDataSlice ?inner 4 = Some encodedTargetParameters"
    using hexInner evenInner p0x by (simp add: hexDataSlice_eq sel)
  have args: "CHR ''0'' # CHR ''x'' # drop 2 encoded = encoded"
    using enc0x by simp
  show ?thesis
    using hexScript evenScript
    by (simp add: decodeEvmScript_eq drop66 args dec slice metadataOf_def split: option.splits)
qed

section \<open>Encoding what the decoder returns\<close>

text \<open>
  The validity check accepts a proposal whose script the encoder returned for a form,
  when the decoded fields lead the encoder to the same intermediate results: the decoded
  target resolves to the same address, the decoded value is the parsed value, and the
  decoded parameters, through \<open>JSON\<close>, are as many as the form's and encode to the same
  bytes.
\<close>

lemma isEvmScriptValid_reencode:
  assumes enc: "goEncodeEvmScript e p formData api3Agent = Inr script"
    and proposal: "decodedEvmScript_p proposal = Some d" "script_p proposal = script"
      "type_p proposal = type formData" "metadata_p proposal = metadataOf formData"
    and address: "convertToAddressOrThrow e p (targetAddress_d d) =
                    convertToAddressOrThrow e p (targetAddress formData)"
    and val: "BigNumber_from (targetValue formData) = Some (value_d d)"
    and json: "JSON_parse e (parameters formData) = Some (JArray targetParameters)"
      "JSON_parse e (JSON_stringify e (JArray (parameters_d d))) = Some (JArray ps)"
      "length ps = length targetParameters"
    and params: "goEncodeParameters e p (parameterTypes_encode (targetSignature formData)) ps =
                 goEncodeParameters e p (parameterTypes_encode (targetSignature formData))
                   targetParameters"
  shows "isEvmScriptValid e p api3Agent proposal"
proof -
  let ?form = "reserialize e proposal d"
  from enc obtain targetParameters' parameterTypes encodedTargetParameters a v where
    j: "goJsonParams e formData = Some targetParameters'" and
    s: "goTargetSignature e formData" and
    t: "goExtractParameters (targetSignature formData) targetParameters' = Some parameterTypes" and
    ep: "goEncodeParameters e p parameterTypes targetParameters' = Some encodedTargetParameters" and
    ad: "goTargetAddress e p formData = Some a" and
    va: "goValue formData = Some v" and
    b: "goBuildEvmScript e formData api3Agent a v encodedTargetParameters = Some script"
    by (auto simp: goEncodeEvmScript_def split: option.splits if_splits)
  have tp: "targetParameters' = targetParameters"
    using j json(1) by (simp add: goJsonParams_Some)
  have tys: "parameterTypes = parameterTypes_encode (targetSignature formData)"
    "length parameterTypes = length targetParameters"
    using t tp by (auto simp: goExtractParameters_Some)
  have v: "v = value_d d" "0 \<le> v" using va val by (simp_all add: goValue_Some)
  have sig: "targetSignature ?form = targetSignature formData"
    by (simp add: reserialize_def proposal(4) metadataOf_def)
  have j': "goJsonParams e ?form = Some ps"
    using json(2) by (simp add: goJsonParams_Some reserialize_def)
  have s': "goTargetSignature e ?form"
    using s by (simp add: goTargetSignature_def sig)
  have t': "goExtractParameters (targetSignature ?form) ps = Some parameterTypes"
    using tys json(3) by (auto simp: goExtractParameters_Some sig)
  have ep': "goEncodeParameters e p parameterTypes ps = Some encodedTargetParameters"
    using ep params tp tys(1) by simp
  have ad': "goTargetAddress e p ?form = Some a"
    using ad address by (simp add: goTargetAddress_def reserialize_def)
  have va': "goValue ?form = Some v"
    using v by (simp add: goValue_Some reserialize_def BigNumber_from_toString)
  have b': "goBuildEvmScript e ?form api3Agent a v encodedTargetParameters = Some script"
    using b by (simp add: goBuildEvmScript_def reserialize_def proposal(3,4) metadataOf_def)
  have "goEncodeEvmScript e p ?form api3Agent = Inr script"
    using j' s' t' ep' ad' va' b' by (simp add: goEncodeEvmScript_def)
  then show ?thesis
    using proposal(1,2) by (simp add: isEvmScriptValid_def)
qed

section \<open>The transfer, decoded and encoded again\<close>

text \<open>
  Both lemmas apply to the transfer: its script decodes to the display names, and the
  validity check accepts it.
\<close>

lemma example_transfer_roundtrip:
  "decodeEvmScript stub_ethers stub_provider example_transfer_script (metadataOf example_transfer) =
     (case abi_decode stub_ethers (parameterTypes_decode (targetSignature example_transfer))
             ''0x000000000000000000000000333333333333333333333333333333333333333300000000000000000000000000000000000000000000000000000000000003e8'' of
        None \<Rightarrow> None
      | Some decodedParameters \<Rightarrow>
          Some \<lparr> targetAddress_d = tryConvertToEnsName stub_provider ''0x4444444444444444444444444444444444444444'',
                 value_d = 0,
                 parameters_d =
                   map stringifyBigNumbersRecursively
                     (lookupParameters stub_provider
                        (parameterTypes_decode (targetSignature example_transfer))
                        decodedParameters) \<rparr>)"
proof (rule decodeEvmScript_goEncodeEvmScript [OF example_transfer_encode])
  show "goEncodeParameters stub_ethers stub_provider
          (parameterTypes_encode (targetSignature example_transfer))
          [JString ''api3.eth'', JString ''1000''] = Some ''0x000000000000000000000000333333333333333333333333333333333333333300000000000000000000000000000000000000000000000000000000000003e8''"
    using example_transfer_parameters by (simp add: example_transfer_def example_parameterTypes)
  show "JSON_parse stub_ethers (parameters example_transfer) =
          Some (JArray [JString ''api3.eth'', JString ''1000''])"
    by (simp add: example_transfer_def example_json)
  show "convertToAddressOrThrow stub_ethers stub_provider (targetAddress example_transfer) =
          Some ''0x4444444444444444444444444444444444444444''"
    by (simp add: example_transfer_def example_target)
  show "BigNumber_from (targetValue example_transfer) = Some 0"
    by (simp add: example_transfer_def example_values)
  show "isHexString (agentOf stub_agent (type example_transfer))"
    by (simp add: example_transfer_def agentOf_def stub_agent_def isHexString_def isHexChar_def)
  show "length (agentOf stub_agent (type example_transfer)) = 42"
    by (simp add: example_transfer_def agentOf_def stub_agent_def)
  show "isHexString ''0x000000000000000000000000333333333333333333333333333333333333333300000000000000000000000000000000000000000000000000000000000003e8''"
    by (simp add: isHexString_def isHexChar_def)
  show "even (length ''0x000000000000000000000000333333333333333333333333333333333333333300000000000000000000000000000000000000000000000000000000000003e8'')"
    by simp
next
  fix encoded
  assume "abi_encode stub_ethers [''address'', ''uint256'', ''bytes'']
        [JString ''0x4444444444444444444444444444444444444444'', JBigNumber 0,
         JString (encodeFunctionSignature stub_ethers (targetSignature example_transfer) @
                  drop 2 ''0x000000000000000000000000333333333333333333333333333333333333333300000000000000000000000000000000000000000000000000000000000003e8'')] = Some encoded"
  then have encoded: "encoded = ''0x'' @ drop 66 example_transfer_script"
    by (simp add: example_transfer_def example_transfer_script_def stub_selectors
        stub_encode_defs)
  show "isHexString encoded \<and> even (length encoded) \<and>
      abi_decode stub_ethers [''address'', ''uint256'', ''bytes''] encoded =
        Some [JString ''0x4444444444444444444444444444444444444444'', JBigNumber 0,
              JString (encodeFunctionSignature stub_ethers (targetSignature example_transfer) @
                       drop 2 ''0x000000000000000000000000333333333333333333333333333333333333333300000000000000000000000000000000000000000000000000000000000003e8'')]"
    unfolding encoded
    by (simp add: example_transfer_def example_transfer_script_def stub_selectors
        isHexString_def isHexChar_def stub_decode_defs)
qed

lemma example_transfer_valid:
  "isEvmScriptValid stub_ethers stub_provider stub_agent
     (proposalOf stub_ethers stub_provider example_transfer example_transfer_script)"
proof (rule isEvmScriptValid_reencode [OF example_transfer_encode])
  show "decodedEvmScript_p
          (proposalOf stub_ethers stub_provider example_transfer example_transfer_script) =
        Some \<lparr> targetAddress_d = ''0x4444444444444444444444444444444444444444'', value_d = 0,
               parameters_d = [JString ''api3.eth'', JString ''1000''] \<rparr>"
    by (simp add: proposalOf_def example_transfer_decode)
  show "script_p (proposalOf stub_ethers stub_provider example_transfer example_transfer_script) =
          example_transfer_script"
    "type_p (proposalOf stub_ethers stub_provider example_transfer example_transfer_script) =
       type example_transfer"
    "metadata_p (proposalOf stub_ethers stub_provider example_transfer example_transfer_script) =
       metadataOf example_transfer"
    by (simp_all add: proposalOf_def)
  show "convertToAddressOrThrow stub_ethers stub_provider
          (targetAddress_d \<lparr> targetAddress_d = ''0x4444444444444444444444444444444444444444'', value_d = 0,
               parameters_d = [JString ''api3.eth'', JString ''1000''] \<rparr>) =
        convertToAddressOrThrow stub_ethers stub_provider (targetAddress example_transfer)"
    by (simp add: example_transfer_def)
  show "BigNumber_from (targetValue example_transfer) =
          Some (value_d \<lparr> targetAddress_d = ''0x4444444444444444444444444444444444444444'', value_d = 0,
               parameters_d = [JString ''api3.eth'', JString ''1000''] \<rparr>)"
    by (simp add: example_transfer_def example_values)
  show "JSON_parse stub_ethers (parameters example_transfer) =
          Some (JArray [JString ''api3.eth'', JString ''1000''])"
    by (simp add: example_transfer_def example_json)
  show "JSON_parse stub_ethers
          (JSON_stringify stub_ethers
             (JArray (parameters_d \<lparr> targetAddress_d = ''0x4444444444444444444444444444444444444444'', value_d = 0,
               parameters_d = [JString ''api3.eth'', JString ''1000''] \<rparr>))) =
          Some (JArray [JString ''api3.eth'', JString ''1000''])"
    by (simp add: stub_JSON_stringify_def example_json)
  show "length [JString ''api3.eth'', JString ''1000''] =
          length [JString ''api3.eth'', JString ''1000'']"
    by simp
  show "goEncodeParameters stub_ethers stub_provider
          (parameterTypes_encode (targetSignature example_transfer))
          [JString ''api3.eth'', JString ''1000''] =
        goEncodeParameters stub_ethers stub_provider
          (parameterTypes_encode (targetSignature example_transfer))
          [JString ''api3.eth'', JString ''1000'']"
    by simp
qed

section \<open>Functions without arguments\<close>

lemma decoded_parameters_not_Nil:
  assumes "decodeEvmScript e p script metadata = Some d"
  shows "parameters_d d \<noteq> []"
proof -
  from decodeEvmScript_Some [OF assms]
  have "length (parameters_d d) = length (parameterTypes_decode (targetSignature_m metadata))"
    by auto
  then show ?thesis
    using parameterTypes_decode_not_Nil [of "targetSignature_m metadata"] by auto
qed

text \<open>
  Claim C4 at the signature \<open>pause()\<close>: the encoder reads no parameter type, the decoder
  reads one, the empty type name. The two lists differ whenever the decoder's list has an
  empty piece, since the encoder's list is the decoder's without the empty pieces.
\<close>

theorem parameterTypes_zero_arguments:
  "parameterTypes_encode ''pause()'' = [] \<and> parameterTypes_decode ''pause()'' = [[]]"
  by (simp add: example_parameterTypes)

text \<open>
  Claim C1 at a function without arguments: the form with the parameters \<open>[]\<close> is encoded,
  and decoding the script with the form's signature returns one parameter, \<open>undefined\<close>:
  the decoder reads one type from the signature, the empty type name, for which the ABI
  coder returns no value, and reads the value at position 0 of an empty array. With any
  library, name service and script, decoding with this signature returns nothing or
  exactly one parameter, never the form's empty list.
\<close>

theorem decodeEvmScript_zero_arguments:
  "JSON_parse stub_ethers (parameters example_pause) = Some (JArray []) \<and>
   goEncodeEvmScript stub_ethers stub_provider example_pause stub_agent =
     Inr example_pause_script \<and>
   decodeEvmScript stub_ethers stub_provider example_pause_script (metadataOf example_pause) =
     Some \<lparr> targetAddress_d = ''0x4444444444444444444444444444444444444444'', value_d = 0,
            parameters_d = [JUndefined] \<rparr> \<and>
   (decodeEvmScript e p script (metadataOf example_pause) = None \<or>
    (\<exists>d. decodeEvmScript e p script (metadataOf example_pause) = Some d \<and>
         length (parameters_d d) = 1))"
proof (intro conjI)
  show "JSON_parse stub_ethers (parameters example_pause) = Some (JArray [])"
    by (simp add: example_pause_def example_json)
  show "goEncodeEvmScript stub_ethers stub_provider example_pause stub_agent =
     Inr example_pause_script"
    by (rule example_pause_encode)
  show "decodeEvmScript stub_ethers stub_provider example_pause_script
      (metadataOf example_pause) =
     Some \<lparr> targetAddress_d = ''0x4444444444444444444444444444444444444444'', value_d = 0,
            parameters_d = [JUndefined] \<rparr>"
    by (rule example_pause_decode)
  show "decodeEvmScript e p script (metadataOf example_pause) = None \<or>
    (\<exists>d. decodeEvmScript e p script (metadataOf example_pause) = Some d \<and>
         length (parameters_d d) = 1)"
  proof (cases "decodeEvmScript e p script (metadataOf example_pause)")
    case None
    then show ?thesis by simp
  next
    case (Some d)
    have "targetSignature_m (metadataOf example_pause) = ''pause()''"
      by (simp add: metadataOf_def example_pause_def)
    with decodeEvmScript_Some [OF Some] have "length (parameters_d d) = 1"
      by (auto simp: example_parameterTypes)
    with Some show ?thesis by simp
  qed
qed

lemma goEncodeEvmScript_Inr_arity:
  assumes "goEncodeEvmScript e p formData api3Agent = Inr evmScript"
  shows "\<exists>targetParameters.
     JSON_parse e (parameters formData) = Some (JArray targetParameters) \<and>
     length targetParameters = length (parameterTypes_encode (targetSignature formData))"
proof -
  from assms obtain targetParameters parameterTypes where
    "goJsonParams e formData = Some targetParameters"
    "goExtractParameters (targetSignature formData) targetParameters = Some parameterTypes"
    by (auto simp: goEncodeEvmScript_def split: option.splits if_splits)
  then show ?thesis
    by (auto simp: goJsonParams_Some goExtractParameters_Some)
qed

lemma isEvmScriptValid_iff:
  "isEvmScriptValid e p api3Agent proposal \<longleftrightarrow>
     (\<exists>d. decodedEvmScript_p proposal = Some d \<and>
          goEncodeEvmScript e p (reserialize e proposal d) api3Agent = Inr (script_p proposal))"
  by (auto simp: isEvmScriptValid_def split: option.splits sum.splits)

lemma isEvmScriptValid_encode_failure:
  assumes "decodedEvmScript_p proposal = Some d"
    and "goEncodeEvmScript e p (reserialize e proposal d) api3Agent = Inl err"
  shows "\<not> isEvmScriptValid e p api3Agent proposal"
  using assms by (simp add: isEvmScriptValid_def)

text \<open>
  For a signature without parameter types the validity check fails for every script the
  decoder accepts, with any library whose \<open>JSON\<close> keeps the length of an array: the decoded
  parameter list is not empty, and the encoder asks for an empty one.
\<close>

lemma isEvmScriptValid_no_parameterTypes:
  assumes dec: "decodedEvmScript_p proposal = decodeEvmScript e p script (metadata_p proposal)"
    and tys: "parameterTypes_encode (targetSignature_m (metadata_p proposal)) = []"
    and json: "\<And>vs targetParameters.
       JSON_parse e (JSON_stringify e (JArray vs)) = Some (JArray targetParameters) \<Longrightarrow>
       length targetParameters = length vs"
  shows "\<not> isEvmScriptValid e p api3Agent proposal"
proof
  assume "isEvmScriptValid e p api3Agent proposal"
  then obtain d where d: "decodedEvmScript_p proposal = Some d" and
    enc: "goEncodeEvmScript e p (reserialize e proposal d) api3Agent = Inr (script_p proposal)"
    by (auto simp: isEvmScriptValid_iff)
  from goEncodeEvmScript_Inr_arity [OF enc] obtain targetParameters where
    "JSON_parse e (JSON_stringify e (JArray (parameters_d d))) = Some (JArray targetParameters)"
    "length targetParameters = 0"
    by (auto simp: reserialize_def tys)
  then have "parameters_d d = []" using json by fastforce
  moreover have "parameters_d d \<noteq> []"
    using d dec decoded_parameters_not_Nil [of e p script "metadata_p proposal" d]
    by simp
  ultimately show False by simp
qed

text \<open>
  Claim C2 at a function without arguments: the script is what the encoder returned and
  the decoded fields are its decoding, and the validity check answers \<open>False\<close>. The decoded
  parameters \<open>[undefined]\<close>, written by \<open>JSON\<close> as \<open>[null]\<close>, are one more than the
  signature declares.
\<close>

theorem isEvmScriptValid_zero_arguments:
  "goEncodeEvmScript stub_ethers stub_provider example_pause stub_agent =
     Inr example_pause_script \<and>
   decodedEvmScript_p (proposalOf stub_ethers stub_provider example_pause example_pause_script) =
     decodeEvmScript stub_ethers stub_provider example_pause_script (metadataOf example_pause) \<and>
   isEvmScriptValid stub_ethers stub_provider stub_agent
     (proposalOf stub_ethers stub_provider example_pause example_pause_script) = False"
proof -
  let ?proposal = "proposalOf stub_ethers stub_provider example_pause example_pause_script"
  let ?d = "\<lparr> targetAddress_d = ''0x4444444444444444444444444444444444444444'', value_d = 0,
            parameters_d = [JUndefined] \<rparr>"
  have d: "decodedEvmScript_p ?proposal = Some ?d"
    by (simp add: proposalOf_def example_pause_decode)
  have form: "reserialize stub_ethers ?proposal ?d = example_pause \<lparr> parameters := ''[null]'' \<rparr>"
    by (simp add: reserialize_def proposalOf_def metadataOf_def example_pause_def
        stub_JSON_stringify_def example_numbers)
  have "goJsonParams stub_ethers (example_pause \<lparr> parameters := ''[null]'' \<rparr>) = Some [JNull]"
    by (simp add: goJsonParams_def example_json)
  moreover have "goTargetSignature stub_ethers (example_pause \<lparr> parameters := ''[null]'' \<rparr>)"
    by (simp add: goTargetSignature_def example_pause_def stub_signatures)
  moreover have "goExtractParameters
      (targetSignature (example_pause \<lparr> parameters := ''[null]'' \<rparr>)) [JNull] = None"
    by (simp add: goExtractParameters_def example_pause_def example_parameterTypes)
  ultimately have "goEncodeEvmScript stub_ethers stub_provider
      (example_pause \<lparr> parameters := ''[null]'' \<rparr>) stub_agent =
      Inl (EncodedEvmScriptError Parameters
             ''Please specify the correct number of function arguments'')"
    by (simp add: goEncodeEvmScript_def)
  then have "isEvmScriptValid stub_ethers stub_provider stub_agent ?proposal = False"
    using d form by (simp add: isEvmScriptValid_def)
  then show ?thesis
    by (simp add: example_pause_encode) (simp add: proposalOf_def)
qed

section \<open>Results of the encoder\<close>

text \<open>
  Claim C6. For every input and every behaviour of the library and of the name service,
  no exception escapes \<open>goEncodeEvmScript\<close>: with the exceptions explicit, each call that
  can throw is the callback of \<open>goSync\<close> or \<open>go\<close>, which catch what it throws, and the
  call completes with the value computed by the function. That value is the script, or an
  error value: one of the seven pairs of a field (\<open>parameters\<close>, \<open>targetSignature\<close>,
  \<open>targetValue\<close>, \<open>targetAddress\<close> or \<open>generic\<close>) and a message that the source
  constructs.
\<close>

theorem goEncodeEvmScript_result:
  "goEncodeEvmScript_completion e p formData api3Agent =
     Some (goEncodeEvmScript e p formData api3Agent) \<and>
   ((\<exists>evmScript. goEncodeEvmScript e p formData api3Agent = Inr evmScript) \<or>
    goEncodeEvmScript e p formData api3Agent \<in> Inl `
      {EncodedEvmScriptError Parameters ''Make sure parameters is a valid JSON array'',
       EncodedEvmScriptError TargetSignature ''Please specify a valid contract signature'',
       EncodedEvmScriptError Parameters ''Please specify the correct number of function arguments'',
       EncodedEvmScriptError Parameters ''Ensure parameters match target contract signature'',
       EncodedEvmScriptError TargetAddress ''Please specify a valid account address'',
       EncodedEvmScriptError TargetValue ''Please enter a valid amount in Wei'',
       EncodedEvmScriptError Generic
         ''Unable to encode the EVM script. Please check that all form fields are correct''})"
proof (rule conjI)
  show "goEncodeEvmScript_completion e p formData api3Agent =
          Some (goEncodeEvmScript e p formData api3Agent)"
    unfolding goEncodeEvmScript_completion_def goEncodeEvmScript_def goSync_def go_def
    by (simp split: option.split)
  show "(\<exists>evmScript. goEncodeEvmScript e p formData api3Agent = Inr evmScript) \<or>
    goEncodeEvmScript e p formData api3Agent \<in> Inl `
      {EncodedEvmScriptError Parameters ''Make sure parameters is a valid JSON array'',
       EncodedEvmScriptError TargetSignature ''Please specify a valid contract signature'',
       EncodedEvmScriptError Parameters ''Please specify the correct number of function arguments'',
       EncodedEvmScriptError Parameters ''Ensure parameters match target contract signature'',
       EncodedEvmScriptError TargetAddress ''Please specify a valid account address'',
       EncodedEvmScriptError TargetValue ''Please enter a valid amount in Wei'',
       EncodedEvmScriptError Generic
         ''Unable to encode the EVM script. Please check that all form fields are correct''}"
    unfolding goEncodeEvmScript_def
    by (simp split: option.split)
qed

theorem goEncodeEvmScript_result_witness:
  "goEncodeEvmScript_completion stub_ethers stub_provider example_transfer stub_agent =
     Some (Inr example_transfer_script) \<and>
   goEncodeEvmScript_completion stub_ethers stub_provider example_tuple stub_agent =
     Some (Inl (EncodedEvmScriptError Parameters
                  ''Ensure parameters match target contract signature''))"
  using goEncodeEvmScript_result [where e = stub_ethers and p = stub_provider
      and formData = example_transfer and api3Agent = stub_agent, THEN conjunct1]
    goEncodeEvmScript_result [where e = stub_ethers and p = stub_provider
      and formData = example_tuple and api3Agent = stub_agent, THEN conjunct1]
  by (simp only: example_transfer_encode example_tuple_encode)

section \<open>The validity check\<close>

text \<open>
  Claim C10. A proposal without a decoded script is invalid, whatever the library, the
  name service and the agent addresses are: the result does not depend on the encoder or
  on the resolver.
\<close>

theorem isEvmScriptValid_without_decoded:
  "decodedEvmScript_p proposal = None \<Longrightarrow> isEvmScriptValid e p api3Agent proposal = False"
  by (simp add: isEvmScriptValid_def)

theorem isEvmScriptValid_without_decoded_witness:
  "decodedEvmScript_p
     \<lparr> type_p = Primary, metadata_p = metadataOf example_pause,
       decodedEvmScript_p = None, script_p = example_pause_script \<rparr> = None \<and>
   isEvmScriptValid stub_ethers stub_provider stub_agent
     \<lparr> type_p = Primary, metadata_p = metadataOf example_pause,
       decodedEvmScript_p = None, script_p = example_pause_script \<rparr> = False"
  using isEvmScriptValid_without_decoded
    [of "\<lparr> type_p = Primary, metadata_p = metadataOf example_pause,
           decodedEvmScript_p = None, script_p = example_pause_script \<rparr>"
        stub_ethers stub_provider stub_agent]
  by simp

end
